theory Spec2Isabelle
  imports Main "HOL-Library.Sublist"
begin

section \<open>Overview\<close>

text \<open>
  A shallow embedding of the read-only Notion analyzer: the gateway \<open>notionFetch\<close>
  with its write guard, the bounded recursive block fetcher, the text renderer, the
  property and target normalizers, request validation with its keyword guard,
  authentication, and the \<open>/analyze\<close> handler.  Exceptions are values of a sum type;
  the network is a function from the requests sent so far and the next request to a
  response, and every function that can reach it threads the list of requests sent.
  The definitions come first, each next to the source it renders; the properties
  follow.
\<close>


section \<open>JavaScript strings\<close>

text \<open>
  A JavaScript string is a sequence of UTF-16 code units; \<open>length\<close>, \<open>slice\<close> and
  \<open>includes\<close> count and compare code units.  A string is modelled as the list of its
  code units, each a natural number.  \<open>js\<close> turns an ASCII literal of the source into
  that list.
\<close>

type_synonym jstring = "nat list"

definition js :: "string \<Rightarrow> jstring" where
  "js s = map of_char s"

text \<open>
  \<open>s.toUpperCase()\<close> maps every code point by the Unicode full case mapping, which
  can give several code units for one.  \<open>upper_units\<close> holds the ASCII letters and
  the code units whose image is made of ASCII letters: U+00DF (sharp s) gives \<open>SS\<close>,
  U+0131 (dotless i) gives \<open>I\<close>, U+017F (long s) gives \<open>S\<close>, and the ligatures
  U+FB00 to U+FB06 give \<open>FF\<close>, \<open>FI\<close>, \<open>FL\<close>, \<open>FFI\<close>, \<open>FFL\<close>, \<open>ST\<close> and \<open>ST\<close>.
  Every other code unit is left as it is.  JavaScript too leaves the other ASCII
  units as they are, and gives for any other unit outside ASCII text that holds a unit
  outside ASCII; so the model and JavaScript agree on whether the mapped string equals
  an ASCII literal.
\<close>

definition upper_units :: "nat \<Rightarrow> jstring" where
  "upper_units c =
     (if 97 \<le> c \<and> c \<le> 122 then [c - 32]
      else if c = 223 then [83, 83]
      else if c = 305 then [73]
      else if c = 383 then [83]
      else if c = 64256 then [70, 70]
      else if c = 64257 then [70, 73]
      else if c = 64258 then [70, 76]
      else if c = 64259 then [70, 70, 73]
      else if c = 64260 then [70, 70, 76]
      else if c = 64261 then [83, 84]
      else if c = 64262 then [83, 84]
      else [c])"

definition toUpperCase :: "jstring \<Rightarrow> jstring" where
  "toUpperCase s = concat (map upper_units s)"

text \<open>
  \<open>s.toLowerCase()\<close>, in the same way: the ASCII letters, U+212A (the Kelvin sign),
  which gives \<open>k\<close>, and U+0130 (capital I with a dot above), which gives \<open>i\<close> followed
  by the combining dot U+0307.  Every other code unit is left as it is.  JavaScript
  too leaves the other ASCII units as they are, and gives for any other unit outside
  ASCII text without an ASCII unit; so the model and JavaScript agree on where an
  ASCII literal occurs in the mapped string.
\<close>

definition lower_units :: "nat \<Rightarrow> jstring" where
  "lower_units c =
     (if 65 \<le> c \<and> c \<le> 90 then [c + 32]
      else if c = 304 then [105, 775]
      else if c = 8490 then [107]
      else [c])"

definition toLowerCase :: "jstring \<Rightarrow> jstring" where
  "toLowerCase s = concat (map lower_units s)"

text \<open>
  The two foldings on one code unit.  A regular expression with the \<open>i\<close> flag
  compares code units after canonicalizing each: a unit maps to its upper case when
  that is a single unit, and a unit outside ASCII never maps into ASCII; so an ASCII
  letter of the pattern is matched by its two ASCII cases only, which is equality
  after \<open>upper_unit\<close>.  \<open>lower_unit\<close> is the mirror image; the URL parser uses it to
  compare a path segment with \<open>%2e\<close>.
\<close>

definition upper_unit :: "nat \<Rightarrow> nat" where
  "upper_unit c = (if 97 \<le> c \<and> c \<le> 122 then c - 32 else c)"

definition lower_unit :: "nat \<Rightarrow> nat" where
  "lower_unit c = (if 65 \<le> c \<and> c \<le> 90 then c + 32 else c)"

text \<open>\<open>s.includes(k)\<close>: \<open>k\<close> occurs in \<open>s\<close> as a contiguous run of code units.\<close>

fun str_includes :: "jstring \<Rightarrow> jstring \<Rightarrow> bool" where
  "str_includes [] k = (k = [])"
| "str_includes (c # s) k = (prefix k (c # s) \<or> str_includes s k)"

text \<open>\<open>xs.join(sep)\<close> on an array of strings.\<close>

fun join :: "jstring \<Rightarrow> jstring list \<Rightarrow> jstring" where
  "join sep [] = []"
| "join sep [x] = x"
| "join sep (x # y # ys) = x @ sep @ join sep (y # ys)"

text \<open>\<open>s.repeat(n)\<close>.\<close>

definition repeat :: "jstring \<Rightarrow> nat \<Rightarrow> jstring" where
  "repeat s n = concat (replicate n s)"

text \<open>Decimal rendering of an integer, as a template literal renders a JavaScript
  number that holds an integer below \<open>10^21\<close> in magnitude.\<close>

fun digits :: "nat \<Rightarrow> jstring" where
  "digits n = (if n < 10 then [48 + n] else digits (n div 10) @ [48 + n mod 10])"

definition show_int :: "int \<Rightarrow> jstring" where
  "show_int i = (if i < 0 then js ''-'' @ digits (nat (- i)) else digits (nat i))"


section \<open>JSON values and the errors JavaScript raises on them\<close>

text \<open>
  Values that \<open>JSON.parse\<close> produces, and \<open>undefined\<close>, which a read of a missing
  property yields.  Numbers are integers (no claim concerns a fractional number).  An
  object is the list of its own properties in insertion order; its keys are distinct
  in every object \<open>JSON.parse\<close> builds.  Reads see own properties only: members
  inherited from \<open>Object.prototype\<close>, and the index and \<open>length\<close> members of strings
  and arrays under a computed key, are outside the model.
\<close>

datatype jsval =
    JUndefined
  | JNull
  | JBool bool
  | JNum int
  | JStr jstring
  | JArr "jsval list"
  | JObj "(jstring \<times> jsval) list"

datatype error =
    Blocked jstring jstring
  | Misconfigured
  | FetchFailed
  | UpstreamError nat jstring
  | SyntaxError
  | TypeError

definition andThen :: "error + 'a \<Rightarrow> ('a \<Rightarrow> error + 'b) \<Rightarrow> error + 'b" where
  "andThen r f = (case r of Inl e \<Rightarrow> Inl e | Inr a \<Rightarrow> f a)"

fun traverse :: "('a \<Rightarrow> error + 'b) \<Rightarrow> 'a list \<Rightarrow> error + 'b list" where
  "traverse f [] = Inr []"
| "traverse f (x # xs) =
     (case f x of
        Inl e \<Rightarrow> Inl e
      | Inr y \<Rightarrow> (case traverse f xs of Inl e \<Rightarrow> Inl e | Inr ys \<Rightarrow> Inr (y # ys)))"

fun truthy :: "jsval \<Rightarrow> bool" where
  "truthy JUndefined = False"
| "truthy JNull = False"
| "truthy (JBool b) = b"
| "truthy (JNum n) = (n \<noteq> 0)"
| "truthy (JStr s) = (s \<noteq> [])"
| "truthy (JArr xs) = True"
| "truthy (JObj kvs) = True"

fun nullish :: "jsval \<Rightarrow> bool" where
  "nullish JUndefined = True"
| "nullish JNull = True"
| "nullish v = False"

text \<open>\<open>a ?? b\<close>.\<close>

definition orElse :: "jsval \<Rightarrow> jsval \<Rightarrow> jsval" where
  "orElse a b = (if nullish a then b else a)"

definition own :: "(jstring \<times> jsval) list \<Rightarrow> jstring \<Rightarrow> jsval" where
  "own kvs k = (case map_of kvs k of None \<Rightarrow> JUndefined | Some v \<Rightarrow> v)"

text \<open>\<open>v.k\<close> and \<open>v[k]\<close>: a TypeError on \<open>null\<close> and \<open>undefined\<close>.\<close>

fun get :: "jsval \<Rightarrow> jstring \<Rightarrow> error + jsval" where
  "get JUndefined k = Inl TypeError"
| "get JNull k = Inl TypeError"
| "get (JObj kvs) k = Inr (own kvs k)"
| "get v k = Inr JUndefined"

text \<open>\<open>v?.k\<close>: \<open>undefined\<close> on \<open>null\<close> and \<open>undefined\<close>.\<close>

fun getOpt :: "jsval \<Rightarrow> jstring \<Rightarrow> jsval" where
  "getOpt (JObj kvs) k = own kvs k"
| "getOpt v k = JUndefined"

text \<open>
  \<open>String(v)\<close>, which a template literal and string concatenation apply.  Inside an
  array's rendering \<open>null\<close> and \<open>undefined\<close> elements are empty, as \<open>join\<close> has them.
\<close>

fun toString :: "jsval \<Rightarrow> jstring" where
  "toString JUndefined = js ''undefined''"
| "toString JNull = js ''null''"
| "toString (JBool b) = (if b then js ''true'' else js ''false'')"
| "toString (JNum n) = show_int n"
| "toString (JStr s) = s"
| "toString (JArr xs) = join (js '','') (map (\<lambda>v. if nullish v then [] else toString v) xs)"
| "toString (JObj kvs) = js ''[object Object]''"

text \<open>\<open>arr.join(sep)\<close> on an array of arbitrary values.\<close>

definition joinValues :: "jstring \<Rightarrow> jsval list \<Rightarrow> jstring" where
  "joinValues sep xs = join sep (map (\<lambda>v. if nullish v then [] else toString v) xs)"

text \<open>
  \<open>(v ?? []).map(f)\<close> for a callback \<open>f\<close> that may raise: on an array the callback runs
  on each element in order; \<open>null\<close> and \<open>undefined\<close> give the empty array; any other
  JSON value has no callable \<open>map\<close>, which is a TypeError.
\<close>

fun mapOrEmpty :: "(jsval \<Rightarrow> error + 'b) \<Rightarrow> jsval \<Rightarrow> error + 'b list" where
  "mapOrEmpty f (JArr xs) = traverse f xs"
| "mapOrEmpty f JUndefined = Inr []"
| "mapOrEmpty f JNull = Inr []"
| "mapOrEmpty f v = Inl TypeError"

text \<open>
  \<open>Object.entries(v)\<close>: the own enumerable string-keyed properties.  A string and an
  array have their indices as keys; numbers and booleans have none; \<open>null\<close> and
  \<open>undefined\<close> raise.
\<close>

definition indexed :: "jsval list \<Rightarrow> (jstring \<times> jsval) list" where
  "indexed xs = zip (map (\<lambda>i. digits i) [0..<length xs]) xs"

fun entries :: "jsval \<Rightarrow> error + (jstring \<times> jsval) list" where
  "entries JUndefined = Inl TypeError"
| "entries JNull = Inl TypeError"
| "entries (JObj kvs) = Inr kvs"
| "entries (JArr xs) = Inr (indexed xs)"
| "entries (JStr s) = Inr (indexed (map (\<lambda>c. JStr [c]) s))"
| "entries v = Inr []"

text \<open>
  \<open>JSON.stringify\<close>.  A string is quoted with the two-character escapes, control
  units and lone surrogates as \<open>\<^verbatim>\<open>\u\<close>\<close> and four lower-case hexadecimal digits.
  \<open>undefined\<close> has no serialization (\<open>None\<close>), is \<open>null\<close> inside an array, and drops its
  property inside an object.
\<close>

definition hexdigit :: "nat \<Rightarrow> nat" where
  "hexdigit d = (if d < 10 then 48 + d else 87 + d)"

definition uescape :: "nat \<Rightarrow> jstring" where
  "uescape c = js [CHR 0x5C, CHR ''u''] @
     [hexdigit (c div 4096 mod 16), hexdigit (c div 256 mod 16),
      hexdigit (c div 16 mod 16), hexdigit (c mod 16)]"

definition isHigh :: "nat \<Rightarrow> bool" where
  "isHigh c = (55296 \<le> c \<and> c \<le> 56319)"

definition isLow :: "nat \<Rightarrow> bool" where
  "isLow c = (56320 \<le> c \<and> c \<le> 57343)"

definition escapeUnit :: "nat \<Rightarrow> jstring" where
  "escapeUnit c =
     (if c = 34 then js [CHR 0x5C, CHR 0x22]
      else if c = 92 then js [CHR 0x5C, CHR 0x5C]
      else if c = 8 then js [CHR 0x5C, CHR ''b'']
      else if c = 12 then js [CHR 0x5C, CHR ''f'']
      else if c = 10 then js [CHR 0x5C, CHR ''n'']
      else if c = 13 then js [CHR 0x5C, CHR ''r'']
      else if c = 9 then js [CHR 0x5C, CHR ''t'']
      else if c < 32 then uescape c
      else [c])"

fun escapeUnits :: "jstring \<Rightarrow> jstring" where
  "escapeUnits [] = []"
| "escapeUnits [c] = (if isHigh c \<or> isLow c then uescape c else escapeUnit c)"
| "escapeUnits (c # d # s) =
     (if isHigh c \<and> isLow d then c # d # escapeUnits s
      else if isHigh c \<or> isLow c then uescape c @ escapeUnits (d # s)
      else escapeUnit c @ escapeUnits (d # s))"

definition quote :: "jstring \<Rightarrow> jstring" where
  "quote s = js [CHR 0x22] @ escapeUnits s @ js [CHR 0x22]"

fun stringify :: "jsval \<Rightarrow> jstring option" where
  "stringify JUndefined = None"
| "stringify JNull = Some (js ''null'')"
| "stringify (JBool b) = Some (if b then js ''true'' else js ''false'')"
| "stringify (JNum n) = Some (show_int n)"
| "stringify (JStr s) = Some (quote s)"
| "stringify (JArr xs) =
     Some (js ''['' @
       join (js '','')
         (map (\<lambda>v. case stringify v of None \<Rightarrow> js ''null'' | Some t \<Rightarrow> t) xs) @
       js '']'')"
| "stringify (JObj kvs) =
     Some (js ''{'' @
       join (js '','')
         (concat (map (\<lambda>kv. case stringify (snd kv) of
                               None \<Rightarrow> []
                             | Some t \<Rightarrow> [quote (fst kv) @ js '':'' @ t]) kvs)) @
       js ''}'')"


section \<open>The read-only gateway (notion.ts)\<close>

text \<open>
  The three shapes of regular expression in \<open>WRITE_PATTERNS\<close>:
  \<open>RootOf l\<close> is \<^verbatim>\<open>/^l\/?$/\<close> (the literal \<open>l\<close>, an optional slash, and the end of the
  input; without the \<open>m\<close> flag \<open>$\<close> matches at the end of the input only), and
  \<open>Under l\<close> is \<^verbatim>\<open>/^l/\<close> (the input starts with the literal \<open>l\<close>).
\<close>

datatype pattern = RootOf jstring | Under jstring

fun pattern_test :: "pattern \<Rightarrow> jstring \<Rightarrow> bool" where
  "pattern_test (RootOf l) path = (path = l \<or> path = l @ js ''/'')"
| "pattern_test (Under l) path = prefix l path"

definition WRITE_PATTERNS :: "(jstring \<times> pattern) list" where
  "WRITE_PATTERNS =
     [(js ''POST'', RootOf (js ''/v1/pages'')),
      (js ''PATCH'', Under (js ''/v1/pages/'')),
      (js ''PATCH'', Under (js ''/v1/blocks/'')),
      (js ''DELETE'', Under (js ''/v1/blocks/'')),
      (js ''POST'', RootOf (js ''/v1/comments''))]"

definition isWriteCall :: "jstring \<Rightarrow> jstring \<Rightarrow> bool" where
  "isWriteCall method path =
     (let upper = toUpperCase method in
      if upper = js ''PATCH'' \<or> upper = js ''DELETE'' then True
      else list_ex (\<lambda>wp. upper = fst wp \<and> pattern_test (snd wp) path) WRITE_PATTERNS)"

text \<open>
  The process environment.  \<open>MAX_DEPTH\<close>, \<open>MAX_BLOCKS\<close> and \<open>DB_PAGE_LIMIT\<close> hold the
  integer \<open>parseInt\<close> reads from the variable, \<open>None\<close> when the variable is unset (a
  variable set to text that is no number, which \<open>parseInt\<close> reads as NaN, is not
  modelled).
\<close>

record env =
  NOTION_TOKEN :: "jstring option"
  NOTION_VERSION :: "jstring option"
  MAX_DEPTH :: "int option"
  MAX_BLOCKS :: "int option"
  DB_PAGE_LIMIT :: "int option"
  GATEWAY_API_KEY :: "jstring option"

text \<open>
  \<open>new URL(path, NOTION_BASE)\<close>, by the URL Standard's parser with the base
  \<open>https://api.notion.com\<close>, whose scheme is special and whose path is \<open>/\<close>.

  The parser first strips the code units up to U+0020 from both ends of the input and
  removes every tab, line feed and carriage return.
\<close>

definition cleaned :: "jstring \<Rightarrow> jstring" where
  "cleaned s =
     filter (\<lambda>c. c \<noteq> 9 \<and> c \<noteq> 10 \<and> c \<noteq> 13)
       (rev (dropWhile (\<lambda>c. c \<le> 32) (rev (dropWhile (\<lambda>c. c \<le> 32) s))))"

text \<open>
  An input that begins with a scheme (an ASCII letter, then letters, digits, \<open>+\<close>, \<open>-\<close>
  and \<open>.\<close>, then a colon) or with two slashes states where it goes by itself.  For a
  special scheme the backslash is a slash.
\<close>

definition isSlash :: "nat \<Rightarrow> bool" where
  "isSlash c = (c = 47 \<or> c = 92)"

definition isAlpha :: "nat \<Rightarrow> bool" where
  "isAlpha c = ((65 \<le> c \<and> c \<le> 90) \<or> (97 \<le> c \<and> c \<le> 122))"

definition isDigit :: "nat \<Rightarrow> bool" where
  "isDigit c = (48 \<le> c \<and> c \<le> 57)"

definition statesScheme :: "jstring \<Rightarrow> bool" where
  "statesScheme s =
     (case s of
        [] \<Rightarrow> False
      | c # r \<Rightarrow>
          isAlpha c \<and>
          (case dropWhile (\<lambda>d. isAlpha d \<or> isDigit d \<or> d = 43 \<or> d = 45 \<or> d = 46) r of
             [] \<Rightarrow> False
           | d # t \<Rightarrow> d = 58))"

definition statesAuthority :: "jstring \<Rightarrow> bool" where
  "statesAuthority s = (case s of c # d # t \<Rightarrow> isSlash c \<and> isSlash d | _ \<Rightarrow> False)"

text \<open>
  Percent-encoding.  The parser reads the input by code point (a surrogate pair is
  one code point, a lone surrogate is read as U+FFFD), and writes a code point of the
  encode set as the bytes of its UTF-8 form, each as \<open>%\<close> and two upper-case
  hexadecimal digits.  The path set holds the controls, everything above U+007E, the
  space and \<^verbatim>\<open>" # < > ? ^ ` { }\<close>; the query set of a special scheme holds the
  controls, everything above U+007E, the space and \<^verbatim>\<open>" # < > '\<close>.  (These are the
  sets of the URL Standard as it stands; a parser written to an earlier text leaves
  the caret of a path as it is.)
\<close>

fun scalarValues :: "jstring \<Rightarrow> nat list" where
  "scalarValues [] = []"
| "scalarValues [c] = [if isHigh c \<or> isLow c then 65533 else c]"
| "scalarValues (c # d # s) =
     (if isHigh c \<and> isLow d
      then (65536 + (c - 55296) * 1024 + (d - 56320)) # scalarValues s
      else (if isHigh c \<or> isLow c then 65533 else c) # scalarValues (d # s))"

definition utf8 :: "nat \<Rightarrow> nat list" where
  "utf8 p =
     (if p < 128 then [p]
      else if p < 2048 then [192 + p div 64, 128 + p mod 64]
      else if p < 65536 then [224 + p div 4096, 128 + p div 64 mod 64, 128 + p mod 64]
      else [240 + p div 262144, 128 + p div 4096 mod 64, 128 + p div 64 mod 64,
            128 + p mod 64])"

definition hexDigit :: "nat \<Rightarrow> nat" where
  "hexDigit d = (if d < 10 then 48 + d else 55 + d)"

definition percentByte :: "nat \<Rightarrow> jstring" where
  "percentByte b = [37, hexDigit (b div 16), hexDigit (b mod 16)]"

definition inPathSet :: "nat \<Rightarrow> bool" where
  "inPathSet p = (p \<le> 32 \<or> 126 < p \<or> p \<in> {34, 35, 60, 62, 63, 94, 96, 123, 125})"

definition inQuerySet :: "nat \<Rightarrow> bool" where
  "inQuerySet p = (p \<le> 32 \<or> 126 < p \<or> p \<in> {34, 35, 39, 60, 62})"

definition percentEncode :: "(nat \<Rightarrow> bool) \<Rightarrow> jstring \<Rightarrow> jstring" where
  "percentEncode encodes s =
     concat (map (\<lambda>p. if encodes p then concat (map percentByte (utf8 p)) else [p])
                 (scalarValues s))"

text \<open>
  The path state.  The input up to the first \<open>?\<close> or \<open>#\<close> is cut at every slash into
  the pieces the parser buffers; \<open>n\<close> slashes give \<open>n + 1\<close> pieces, the last one ended
  by the end of the path.  A piece \<open>..\<close> (also written with \<open>%2e\<close>, in either case)
  removes the last segment of the path built so far, if there is one; a piece \<open>.\<close>
  adds nothing; any other piece is added, percent-encoded.  After a \<open>.\<close> or \<open>..\<close> that
  ends the path, an empty segment is added.  The pathname is the segments, each after
  a slash.
\<close>

fun pieces :: "jstring \<Rightarrow> jstring \<Rightarrow> jstring list" where
  "pieces buffer [] = [buffer]"
| "pieces buffer (c # s) =
     (if isSlash c then buffer # pieces [] s else pieces (buffer @ [c]) s)"

definition isSingleDot :: "jstring \<Rightarrow> bool" where
  "isSingleDot b = (map lower_unit b = js ''.'' \<or> map lower_unit b = js ''%2e'')"

definition isDoubleDot :: "jstring \<Rightarrow> bool" where
  "isDoubleDot b =
     (map lower_unit b = js ''..'' \<or> map lower_unit b = js ''.%2e'' \<or>
      map lower_unit b = js ''%2e.'' \<or> map lower_unit b = js ''%2e%2e'')"

fun segments :: "jstring list \<Rightarrow> jstring list \<Rightarrow> jstring list" where
  "segments [] path = path"
| "segments [b] path =
     (if isDoubleDot b then butlast path @ [[]]
      else if isSingleDot b then path @ [[]]
      else path @ [percentEncode inPathSet b])"
| "segments (b # c # bs) path =
     segments (c # bs)
       (if isDoubleDot b then butlast path
        else if isSingleDot b then path
        else path @ [percentEncode inPathSet b])"

definition pathname :: "jstring list \<Rightarrow> jstring" where
  "pathname path = concat (map (\<lambda>segment. 47 # segment) path)"

text \<open>
  The query is what stands between the first \<open>?\<close> and the first \<open>#\<close> after it,
  percent-encoded; without a \<open>?\<close> before any \<open>#\<close> the URL has no query.  The fragment
  is not sent.
\<close>

definition beforeQuery :: "jstring \<Rightarrow> jstring" where
  "beforeQuery s = takeWhile (\<lambda>c. c \<noteq> 63 \<and> c \<noteq> 35) s"

definition queryOf :: "jstring \<Rightarrow> jstring option" where
  "queryOf s =
     (case dropWhile (\<lambda>c. c \<noteq> 63 \<and> c \<noteq> 35) s of
        [] \<Rightarrow> None
      | c # r \<Rightarrow>
          if c = 63 then Some (percentEncode inQuerySet (takeWhile (\<lambda>d. d \<noteq> 35) r))
          else None)"

text \<open>
  Where a request goes.  \<open>AtBase\<close>: to the host of \<open>NOTION_BASE\<close>, at the pathname and
  with the query the parser makes of the input; an input with one leading slash, or
  with none, is read from the root of the base, whose own path is \<open>/\<close>.  \<open>Stated\<close>:
  the input states its own scheme or authority; what the parser makes of those
  (another host, a path on this one, or a \<open>TypeError\<close> when the host does not parse) is
  outside the model, which keeps the cleaned input as the path.  No caller in this
  repository passes such a path: each starts with \<open>/v1/\<close>.  On an \<open>AtBase\<close> input the
  parser never fails.
\<close>

datatype origin = AtBase | Stated

definition resolveUrl :: "jstring \<Rightarrow> origin \<times> jstring \<times> jstring option" where
  "resolveUrl path =
     (let s = cleaned path in
      if statesScheme s \<or> statesAuthority s then (Stated, s, None)
      else
        (let rest = (case s of [] \<Rightarrow> [] | c # r \<Rightarrow> if isSlash c then r else s)
         in (AtBase, pathname (segments (pieces [] (beforeQuery rest)) []), queryOf rest)))"

text \<open>
  One HTTP request to the external store, as it leaves \<open>fetch\<close>: the method, where
  the URL points (\<open>req_origin\<close>, \<open>req_path\<close> and \<open>req_query\<close>, from \<open>resolveUrl\<close>),
  the search parameters \<open>notionFetch\<close> sets on the URL afterwards, the headers and the
  serialized body.  (\<open>searchParams.set\<close> rewrites the query with the parameter in it;
  the model keeps the query as parsed and the parameters set side by side, and does
  not compute the rewritten text.  Header values are taken to be valid.)
\<close>

record request =
  req_method :: jstring
  req_origin :: origin
  req_path :: jstring
  req_query :: "jstring option"
  req_params :: "(jstring \<times> jstring) list"
  req_headers :: "(jstring \<times> jstring) list"
  req_body :: "jstring option"

text \<open>
  The store's answer: the status, the body as text, and the body as parsed JSON
  (\<open>None\<close> when \<open>res.json()\<close> rejects).  \<open>res.ok\<close> is a status of 200 to 299.
\<close>

record response =
  res_status :: nat
  res_text :: jstring
  res_json :: "jsval option"

definition res_ok :: "response \<Rightarrow> bool" where
  "res_ok res = (200 \<le> res_status res \<and> res_status res \<le> 299)"

text \<open>
  The external store: it answers a request, possibly depending on the requests it has
  already received; \<open>None\<close> is a \<open>fetch\<close> that rejects.  Every function that can reach
  the network takes the list of requests sent so far and returns it extended: the only
  place that extends it is \<open>notionFetch\<close>.
\<close>

type_synonym upstream = "request list \<Rightarrow> request \<Rightarrow> response option"

record NotionFetchOptions =
  opt_method :: "jstring option"
  opt_body :: jsval
  opt_params :: "(jstring \<times> jsval) list option"

definition NOTION_BASE :: jstring where
  "NOTION_BASE = js ''https://api.notion.com''"

text \<open>\<open>(options.method ?? "GET").toUpperCase()\<close>.\<close>

definition callMethod :: "NotionFetchOptions \<Rightarrow> jstring" where
  "callMethod options =
     toUpperCase (case opt_method options of None \<Rightarrow> js ''GET'' | Some m \<Rightarrow> m)"

text \<open>The request \<open>notionFetch\<close> hands to \<open>fetch\<close>: the URL with its search
  parameters, the three headers, and the body, serialized when it is truthy.\<close>

definition fetchRequest ::
  "env \<Rightarrow> jstring \<Rightarrow> jstring \<Rightarrow> jstring \<Rightarrow> NotionFetchOptions \<Rightarrow> request" where
  "fetchRequest E token method path options =
     \<lparr> req_method = method,
       req_origin = fst (resolveUrl path),
       req_path = fst (snd (resolveUrl path)),
       req_query = snd (snd (resolveUrl path)),
       req_params = (case opt_params options of
                       None \<Rightarrow> []
                     | Some ps \<Rightarrow> map (\<lambda>kv. (fst kv, toString (snd kv))) ps),
       req_headers =
         [(js ''Authorization'', js ''Bearer '' @ token),
          (js ''Notion-Version'',
             (case NOTION_VERSION E of None \<Rightarrow> js ''2022-06-28'' | Some v \<Rightarrow> v)),
          (js ''Content-Type'', js ''application/json'')],
       req_body = (if truthy (opt_body options) then stringify (opt_body options) else None) \<rparr>"

text \<open>
  \<open>fetch\<close> rejects with a \<open>TypeError\<close>, and sends nothing, when the method is not an
  HTTP token (one or more letters, digits and \<^verbatim>\<open>! # $ % & ' * + - . ^ _ ` | ~\<close>), when
  it is one of the forbidden methods \<open>CONNECT\<close>, \<open>TRACE\<close> and \<open>TRACK\<close>, and when a
  \<open>GET\<close> or \<open>HEAD\<close> request has a body.
\<close>

definition isTokenUnit :: "nat \<Rightarrow> bool" where
  "isTokenUnit c =
     (isAlpha c \<or> isDigit c \<or>
      c \<in> {33, 35, 36, 37, 38, 39, 42, 43, 45, 46, 94, 95, 96, 124, 126})"

definition fetchRefuses :: "request \<Rightarrow> bool" where
  "fetchRefuses req =
     (req_method req = [] \<or> \<not> list_all isTokenUnit (req_method req)
      \<or> req_method req = js ''CONNECT'' \<or> req_method req = js ''TRACE''
      \<or> req_method req = js ''TRACK''
      \<or> ((req_method req = js ''GET'' \<or> req_method req = js ''HEAD'') \<and> req_body req \<noteq> None))"

definition notionFetch ::
  "env \<Rightarrow> upstream \<Rightarrow> jstring \<Rightarrow> NotionFetchOptions \<Rightarrow> request list
     \<Rightarrow> (error + jsval) \<times> request list" where
  "notionFetch E net path options log =
     (let method = callMethod options in
      if isWriteCall method path then (Inl (Blocked method path), log)
      else
        (case NOTION_TOKEN E of
           None \<Rightarrow> (Inl Misconfigured, log)
         | Some token \<Rightarrow>
             if token = [] then (Inl Misconfigured, log)
             else
               (let req = fetchRequest E token method path options
                in if fetchRefuses req then (Inl TypeError, log)
                   else
                     (case net log req of
                        None \<Rightarrow> (Inl FetchFailed, log @ [req])
                      | Some res \<Rightarrow>
                          if \<not> res_ok res
                          then (Inl (UpstreamError (res_status res) (res_text res)),
                                log @ [req])
                          else (case res_json res of
                                  None \<Rightarrow> (Inl SyntaxError, log @ [req])
                                | Some v \<Rightarrow> (Inr v, log @ [req]))))))"

definition noOptions :: NotionFetchOptions where
  "noOptions = \<lparr> opt_method = None, opt_body = JUndefined, opt_params = None \<rparr>"

definition retrievePage ::
  "env \<Rightarrow> upstream \<Rightarrow> jstring \<Rightarrow> request list \<Rightarrow> (error + jsval) \<times> request list" where
  "retrievePage E net pageId log = notionFetch E net (js ''/v1/pages/'' @ pageId) noOptions log"

text \<open>The block id is whatever the parent listing held under \<open>id\<close>; the template
  literal renders it with \<open>String\<close>.  The page size is the default, 100.\<close>

definition retrieveBlockChildren ::
  "env \<Rightarrow> upstream \<Rightarrow> jsval \<Rightarrow> request list \<Rightarrow> (error + jsval) \<times> request list" where
  "retrieveBlockChildren E net blockId log =
     notionFetch E net (js ''/v1/blocks/'' @ toString blockId @ js ''/children'')
       \<lparr> opt_method = None, opt_body = JUndefined,
         opt_params = Some [(js ''page_size'', JNum 100)] \<rparr> log"

text \<open>
  The object spread \<open>{ page_size: dbPageLimit, ...query }\<close>: the own enumerable
  properties of \<open>query\<close> are copied over the literal's one, each by
  \<open>CreateDataProperty\<close>: a key already there keeps its place and takes the new value,
  a new key goes last.  (\<open>null\<close>, \<open>undefined\<close>, numbers and booleans spread to
  nothing.  JavaScript lists array-index keys before the others when it enumerates an
  object; the model keeps insertion order, and no theorem below depends on the order.)
\<close>

fun assign :: "(jstring \<times> jsval) list \<Rightarrow> jstring \<Rightarrow> jsval \<Rightarrow> (jstring \<times> jsval) list" where
  "assign [] k v = [(k, v)]"
| "assign ((k', v') # kvs) k v = (if k' = k then (k, v) # kvs else (k', v') # assign kvs k v)"

definition spread :: "(jstring \<times> jsval) list \<Rightarrow> jsval \<Rightarrow> (jstring \<times> jsval) list" where
  "spread obj src =
     fold (\<lambda>kv acc. assign acc (fst kv) (snd kv))
       (case entries src of Inl e \<Rightarrow> [] | Inr kvs \<Rightarrow> kvs) obj"

definition dbPageLimit :: "env \<Rightarrow> int" where
  "dbPageLimit E = (case DB_PAGE_LIMIT E of None \<Rightarrow> 50 | Some n \<Rightarrow> n)"

definition queryDatabase ::
  "env \<Rightarrow> upstream \<Rightarrow> jstring \<Rightarrow> jsval \<Rightarrow> request list \<Rightarrow> (error + jsval) \<times> request list" where
  "queryDatabase E net databaseId query log =
     notionFetch E net (js ''/v1/databases/'' @ databaseId @ js ''/query'')
       \<lparr> opt_method = Some (js ''POST''),
         opt_body = JObj (spread [(js ''page_size'', JNum (dbPageLimit E))] query),
         opt_params = None \<rparr> log"


section \<open>The recursive block fetcher (notion.ts)\<close>

record FlatBlock =
  fb_id :: jsval
  fb_type :: jsval
  fb_depth :: nat
  fb_data :: jsval

text \<open>\<open>for (const block of v)\<close>: an array yields its elements, a string its code
  points, anything else is not iterable.\<close>

fun codePoints :: "jstring \<Rightarrow> jstring list" where
  "codePoints [] = []"
| "codePoints [c] = [[c]]"
| "codePoints (c # d # s) =
     (if isHigh c \<and> isLow d then [c, d] # codePoints s else [c] # codePoints (d # s))"

fun iterate :: "jsval \<Rightarrow> error + jsval list" where
  "iterate (JArr xs) = Inr xs"
| "iterate (JStr s) = Inr (map JStr (codePoints s))"
| "iterate v = Inl TypeError"

definition maxDepth :: "env \<Rightarrow> int" where
  "maxDepth E = (case MAX_DEPTH E of None \<Rightarrow> 2 | Some d \<Rightarrow> d)"

definition maxBlocks :: "env \<Rightarrow> int" where
  "maxBlocks E = (case MAX_BLOCKS E of None \<Rightarrow> 400 | Some n \<Rightarrow> n)"

text \<open>
  \<open>recurse\<close> is the closure of \<open>fetchPageBlocks\<close>; the array \<open>result\<close> it shares with
  its recursive calls is passed in and returned.  \<open>loop\<close> is its \<open>for\<close> loop over the
  listing.  An exception abandons \<open>result\<close>.  Once \<open>b.id\<close> has been read, \<open>b\<close> is
  neither \<open>null\<close> nor \<open>undefined\<close>, so the reads of \<open>b.type\<close> and \<open>b.has_children\<close>
  cannot raise and are written with \<open>getOpt\<close>.
\<close>

function recurse ::
    "env \<Rightarrow> upstream \<Rightarrow> jsval \<Rightarrow> nat \<Rightarrow> FlatBlock list \<Rightarrow> request list
       \<Rightarrow> (error + FlatBlock list) \<times> request list"
  and loop ::
    "env \<Rightarrow> upstream \<Rightarrow> jsval list \<Rightarrow> nat \<Rightarrow> FlatBlock list \<Rightarrow> request list
       \<Rightarrow> (error + FlatBlock list) \<times> request list"
where
  "recurse E net parentId depth result log =
     (if int depth > maxDepth E \<or> int (length result) \<ge> maxBlocks E then (Inr result, log)
      else
        (case retrieveBlockChildren E net parentId log of
           (Inl e, log') \<Rightarrow> (Inl e, log')
         | (Inr resp, log') \<Rightarrow>
             (case andThen (get resp (js ''results'')) iterate of
                Inl e \<Rightarrow> (Inl e, log')
              | Inr blocks \<Rightarrow> loop E net blocks depth result log')))"
| "loop E net [] depth result log = (Inr result, log)"
| "loop E net (b # rest) depth result log =
     (if int (length result) \<ge> maxBlocks E then (Inr result, log)
      else
        (case get b (js ''id'') of
           Inl e \<Rightarrow> (Inl e, log)
         | Inr bid \<Rightarrow>
             (let pushed = result @ [\<lparr> fb_id = bid, fb_type = getOpt b (js ''type''),
                                      fb_depth = depth, fb_data = b \<rparr>]
              in if truthy (getOpt b (js ''has_children'')) \<and> int depth < maxDepth E
                 then (case recurse E net bid (depth + 1) pushed log of
                         (Inl e, log') \<Rightarrow> (Inl e, log')
                       | (Inr result', log') \<Rightarrow> loop E net rest depth result' log')
                 else loop E net rest depth pushed log)))"
  by pat_completeness auto
termination
  by (relation "measures
         [\<lambda>x. case x of
                Inl (E, net, parentId, depth, result, log) \<Rightarrow>
                  2 * nat (maxDepth E + 1 - int depth) + 1
              | Inr (E, net, blocks, depth, result, log) \<Rightarrow>
                  2 * nat (maxDepth E + 1 - int depth),
          \<lambda>x. case x of
                Inl (E, net, parentId, depth, result, log) \<Rightarrow> 0
              | Inr (E, net, blocks, depth, result, log) \<Rightarrow> length blocks]")
     auto

definition fetchPageBlocks ::
  "env \<Rightarrow> upstream \<Rightarrow> jstring \<Rightarrow> request list \<Rightarrow> (error + FlatBlock list) \<times> request list" where
  "fetchPageBlocks E net pageId log = recurse E net (JStr pageId) 0 [] log"


section \<open>Blocks to text (text.ts)\<close>

text \<open>One span of rich text: \<open>rt.plain_text ?? rt.text?.content ?? ""\<close>.\<close>

definition spanText :: "jsval \<Rightarrow> error + jsval" where
  "spanText rt =
     andThen (get rt (js ''plain_text''))
       (\<lambda>p. Inr (orElse (orElse p (getOpt (getOpt rt (js ''text'')) (js ''content''))) (JStr [])))"

fun richTextToPlain :: "jsval \<Rightarrow> error + jstring" where
  "richTextToPlain (JArr xs) = andThen (traverse spanText xs) (\<lambda>vs. Inr (joinValues [] vs))"
| "richTextToPlain v = Inr []"

text \<open>The non-ASCII literals of \<open>blockToText\<close>, as UTF-16 code units: the bullet
  U+2022, the triangle U+25B8, the page U+1F4C4, the card file box U+1F5C3 with the
  variation selector U+FE0F, and the link U+1F517.\<close>

definition bullet :: jstring where "bullet = [8226]"
definition triangle :: jstring where "triangle = [9656]"
definition pageIcon :: jstring where "pageIcon = [55357, 56516]"
definition databaseIcon :: jstring where "databaseIcon = [55357, 56771, 65039]"
definition linkIcon :: jstring where "linkIcon = [55357, 56599]"

text \<open>\<open>cells.map((c) => richTextToPlain(c))\<close> on a truthy \<open>cells\<close>: only an array
  has a \<open>map\<close> to call.\<close>

fun mapCells :: "jsval \<Rightarrow> error + jstring list" where
  "mapCells (JArr cs) = traverse richTextToPlain cs"
| "mapCells v = Inl TypeError"

definition blockToText :: "jsval \<Rightarrow> nat \<Rightarrow> error + jstring" where
  "blockToText block depth =
     (let indent = repeat (js ''  '') depth in
      andThen (get block (js ''type'')) (\<lambda>type.
      andThen (get block (toString type)) (\<lambda>content.
        if \<not> truthy content then Inr (indent @ js ''['' @ toString type @ js '']'')
        else
          andThen (richTextToPlain (getOpt content (js ''rich_text''))) (\<lambda>text.
            if type = JStr (js ''paragraph'') then Inr (if text \<noteq> [] then indent @ text else [])
            else if type = JStr (js ''heading_1'') then Inr (indent @ js ''# '' @ text)
            else if type = JStr (js ''heading_2'') then Inr (indent @ js ''## '' @ text)
            else if type = JStr (js ''heading_3'') then Inr (indent @ js ''### '' @ text)
            else if type = JStr (js ''bulleted_list_item'')
              then Inr (indent @ bullet @ js '' '' @ text)
            else if type = JStr (js ''numbered_list_item'') then Inr (indent @ js ''1. '' @ text)
            else if type = JStr (js ''to_do'')
              then Inr (indent @ js ''['' @
                        (if truthy (getOpt content (js ''checked'')) then js ''x'' else js '' '') @
                        js ''] '' @ text)
            else if type = JStr (js ''toggle'') then Inr (indent @ triangle @ js '' '' @ text)
            else if type = JStr (js ''quote'') then Inr (indent @ js ''> '' @ text)
            else if type = JStr (js ''callout'')
              then (let icon = getOpt content (js ''icon'');
                        emoji = (if getOpt icon (js ''type'') = JStr (js ''emoji'')
                                 then toString (getOpt icon (js ''emoji'')) @ js '' '' else [])
                    in Inr (indent @ emoji @ text))
            else if type = JStr (js ''code'')
              then (let lang = toString (orElse (getOpt content (js ''language'')) (JStr []))
                    in Inr (indent @ js ''```'' @ lang @ [10] @ indent @ text @ [10] @
                            indent @ js ''```''))
            else if type = JStr (js ''divider'') then Inr (indent @ js ''---'')
            else if type = JStr (js ''table_row'')
              then (let cells = getOpt content (js ''cells'') in
                    if \<not> truthy cells then Inr (indent @ js ''[table_row]'')
                    else andThen (mapCells cells)
                           (\<lambda>cs. Inr (indent @ js ''| '' @ join (js '' | '') cs @ js '' |'')))
            else if type = JStr (js ''child_page'')
              then Inr (indent @ pageIcon @ js '' '' @
                        toString (orElse (getOpt content (js ''title'')) (JStr (js ''Untitled''))))
            else if type = JStr (js ''child_database'')
              then Inr (indent @ databaseIcon @ js '' '' @
                        toString (orElse (getOpt content (js ''title'')) (JStr (js ''Untitled DB''))))
            else if type = JStr (js ''image'') \<or> type = JStr (js ''video'') \<or>
                    type = JStr (js ''file'') \<or> type = JStr (js ''pdf'')
              then Inr (indent @ js ''['' @ toString type @ js '']'')
            else if type = JStr (js ''bookmark'')
              then Inr (indent @ linkIcon @ js '' '' @
                        toString (orElse (getOpt content (js ''url'')) (JStr (js ''[bookmark]''))))
            else if type = JStr (js ''embed'')
              then Inr (indent @ js ''[embed: '' @
                        toString (orElse (getOpt content (js ''url'')) (JStr (js ''unknown''))) @
                        js '']'')
            else Inr (if text \<noteq> [] then indent @ text
                      else indent @ js ''['' @ toString type @ js '']'')))))"


section \<open>Normalization (normalize.ts)\<close>

definition MAX_CONTENT_CHARS :: nat where
  "MAX_CONTENT_CHARS = 20000"

text \<open>The marker \<^verbatim>\<open>"\n... [truncated]"\<close>.\<close>

definition truncationMarker :: jstring where
  "truncationMarker = [10] @ js ''... [truncated]''"

text \<open>The step both normalizers apply to the assembled text:
  \<open>if (contentText.length > MAX_CONTENT_CHARS) contentText = contentText.slice(0,
  MAX_CONTENT_CHARS) + marker\<close>.\<close>

definition truncateContent :: "jstring \<Rightarrow> jstring" where
  "truncateContent contentText =
     (if length contentText > MAX_CONTENT_CHARS
      then take MAX_CONTENT_CHARS contentText @ truncationMarker
      else contentText)"

record NormalizedDatabaseItem =
  item_id :: jsval
  item_title :: jstring
  item_properties :: "(jstring \<times> jsval) list"
  item_properties_raw :: jsval

record NormalizedTarget =
  target_type :: jstring
  target_id :: jstring
  title :: jstring
  properties :: "(jstring \<times> jsval) list"
  content_text :: jstring
  blocks_count :: nat
  items :: "NormalizedDatabaseItem list option"

text \<open>
  \<open>x > 0\<close> for the \<open>length\<close> a value reports.  \<open>undefined\<close> is NaN and \<open>null\<close> is 0;
  an object is NaN.  (\<open>ToNumber\<close> of a string, and of an array through its string, is
  not modelled: such a \<open>length\<close> counts as not above zero.)
\<close>

fun gtZero :: "jsval \<Rightarrow> bool" where
  "gtZero (JNum n) = (n > 0)"
| "gtZero (JBool b) = b"
| "gtZero v = False"

text \<open>
  \<open>if (titleArr && titleArr.length > 0) return titleArr.map((t) => t.plain_text ??
  "").join("")\<close>: \<open>None\<close> when the condition is false.  A non-empty string and an
  object with a positive \<open>length\<close> pass the condition and have no \<open>map\<close> to call.
\<close>

fun titleOf :: "jsval \<Rightarrow> error + jstring option" where
  "titleOf (JArr ts) =
     (if ts = [] then Inr None
      else andThen
             (traverse (\<lambda>t. andThen (get t (js ''plain_text'')) (\<lambda>p. Inr (orElse p (JStr [])))) ts)
             (\<lambda>vs. Inr (Some (joinValues [] vs))))"
| "titleOf (JStr s) = (if s = [] then Inr None else Inl TypeError)"
| "titleOf (JObj kvs) = (if gtZero (own kvs (js ''length'')) then Inl TypeError else Inr None)"
| "titleOf v = Inr None"

text \<open>The body shared by the two loops of \<open>extractPageTitle\<close>: the first property in
  the list that is a title with a non-empty array returns.\<close>

fun firstTitle :: "jsval list \<Rightarrow> error + jstring option" where
  "firstTitle [] = Inr None"
| "firstTitle (prop # rest) =
     (if getOpt prop (js ''type'') = JStr (js ''title'')
      then (case titleOf (getOpt prop (js ''title'')) of
              Inl e \<Rightarrow> Inl e
            | Inr (Some t) \<Rightarrow> Inr (Some t)
            | Inr None \<Rightarrow> firstTitle rest)
      else firstTitle rest)"

definition extractPageTitle :: "jsval \<Rightarrow> error + jstring" where
  "extractPageTitle page =
     andThen (get page (js ''properties'')) (\<lambda>props.
       if \<not> truthy props then Inr (js ''Untitled'')
       else
         (case firstTitle (map (getOpt props) [js ''title'', js ''Title'', js ''Name'', js ''name'']) of
            Inl e \<Rightarrow> Inl e
          | Inr (Some t) \<Rightarrow> Inr t
          | Inr None \<Rightarrow>
              (case firstTitle (map snd (case entries props of Inl e \<Rightarrow> [] | Inr kvs \<Rightarrow> kvs)) of
                 Inl e \<Rightarrow> Inl e
               | Inr (Some t) \<Rightarrow> Inr t
               | Inr None \<Rightarrow> Inr (js ''Untitled''))))"

text \<open>
  \<open>result[key] = v\<close> on the object literal \<open>result\<close>: an ordinary assignment.  For the
  key \<open>__proto__\<close> it reaches the accessor \<open>Object.prototype\<close> has under that name,
  which sets the prototype (or does nothing) and adds no own property.
\<close>

definition setProp :: "(jstring \<times> jsval) list \<Rightarrow> jstring \<Rightarrow> jsval \<Rightarrow> (jstring \<times> jsval) list" where
  "setProp obj k v = (if k = js ''__proto__'' then obj else assign obj k v)"

text \<open>The \<open>switch\<close> of \<open>extractSimpleProperties\<close>: the value stored for a property
  \<open>prop\<close> whose discriminant is \<open>type\<close>.  \<open>prop.type\<close> has been read, so \<open>prop\<close> is not
  \<open>null\<close> or \<open>undefined\<close> and its other reads cannot raise.\<close>

definition propertyValue :: "jsval \<Rightarrow> jsval \<Rightarrow> error + jsval" where
  "propertyValue type prop =
     (if type = JStr (js ''title'')
        then andThen (richTextToPlain (getOpt prop (js ''title''))) (\<lambda>t. Inr (JStr t))
      else if type = JStr (js ''rich_text'')
        then andThen (richTextToPlain (getOpt prop (js ''rich_text''))) (\<lambda>t. Inr (JStr t))
      else if type = JStr (js ''number'') then Inr (getOpt prop (js ''number''))
      else if type = JStr (js ''select'')
        then Inr (orElse (getOpt (getOpt prop (js ''select'')) (js ''name'')) JNull)
      else if type = JStr (js ''multi_select'')
        then andThen (mapOrEmpty (\<lambda>s. get s (js ''name'')) (getOpt prop (js ''multi_select'')))
               (\<lambda>vs. Inr (JArr vs))
      else if type = JStr (js ''status'')
        then Inr (orElse (getOpt (getOpt prop (js ''status'')) (js ''name'')) JNull)
      else if type = JStr (js ''date'')
        then (let d = getOpt prop (js ''date'') in
              Inr (if truthy d
                   then JObj [(js ''start'', getOpt d (js ''start'')),
                              (js ''end'', orElse (getOpt d (js ''end'')) JNull)]
                   else JNull))
      else if type = JStr (js ''checkbox'') then Inr (getOpt prop (js ''checkbox''))
      else if type = JStr (js ''url'') then Inr (getOpt prop (js ''url''))
      else if type = JStr (js ''email'') then Inr (getOpt prop (js ''email''))
      else if type = JStr (js ''phone_number'') then Inr (getOpt prop (js ''phone_number''))
      else if type = JStr (js ''people'')
        then andThen (mapOrEmpty (\<lambda>p. andThen (get p (js ''name''))
                                          (\<lambda>n. Inr (orElse n (JStr (js ''Unknown'')))))
                        (getOpt prop (js ''people'')))
               (\<lambda>vs. Inr (JArr vs))
      else if type = JStr (js ''relation'')
        then andThen (mapOrEmpty (\<lambda>r. get r (js ''id'')) (getOpt prop (js ''relation'')))
               (\<lambda>vs. Inr (JArr vs))
      else if type = JStr (js ''formula'')
        then (let f = getOpt prop (js ''formula'') in
              Inr (orElse (getOpt f (toString (getOpt f (js ''type'')))) JNull))
      else if type = JStr (js ''rollup'')
        then (let r = getOpt prop (js ''rollup'') in
              Inr (orElse (getOpt r (toString (getOpt r (js ''type'')))) JNull))
      else if type = JStr (js ''created_time'') then Inr (getOpt prop (js ''created_time''))
      else if type = JStr (js ''last_edited_time'') then Inr (getOpt prop (js ''last_edited_time''))
      else if type = JStr (js ''created_by'')
        then Inr (orElse (getOpt (getOpt prop (js ''created_by'')) (js ''name'')) JNull)
      else if type = JStr (js ''last_edited_by'')
        then Inr (orElse (getOpt (getOpt prop (js ''last_edited_by'')) (js ''name'')) JNull)
      else Inr (JStr (js ''['' @ toString type @ js '']'')))"

text \<open>The loop of \<open>extractSimpleProperties\<close> over \<open>Object.entries(props)\<close>, with the
  object \<open>result\<close> built so far.\<close>

fun extractLoop ::
  "(jstring \<times> jsval) list \<Rightarrow> (jstring \<times> jsval) list \<Rightarrow> error + (jstring \<times> jsval) list" where
  "extractLoop [] result = Inr result"
| "extractLoop ((key, val) # rest) result =
     (case get val (js ''type'') of
        Inl e \<Rightarrow> Inl e
      | Inr type \<Rightarrow>
          (case propertyValue type val of
             Inl e \<Rightarrow> Inl e
           | Inr v \<Rightarrow> extractLoop rest (setProp result key v)))"

definition extractSimpleProperties :: "jsval \<Rightarrow> error + (jstring \<times> jsval) list" where
  "extractSimpleProperties props = andThen (entries props) (\<lambda>kvs. extractLoop kvs [])"

text \<open>\<open>blocks.map((b) => blockToText(b.data, b.depth)).filter((line) => line.length >
  0).join("\n")\<close>.\<close>

definition pageContent :: "FlatBlock list \<Rightarrow> error + jstring" where
  "pageContent blocks =
     andThen (traverse (\<lambda>b. blockToText (fb_data b) (fb_depth b)) blocks)
       (\<lambda>lines. Inr (join [10] (filter (\<lambda>line. length line > 0) lines)))"

definition normalizePageTarget ::
  "env \<Rightarrow> upstream \<Rightarrow> jstring \<Rightarrow> request list \<Rightarrow> (error + NormalizedTarget) \<times> request list" where
  "normalizePageTarget E net pageId log =
     (case retrievePage E net pageId log of
        (Inl e, log1) \<Rightarrow> (Inl e, log1)
      | (Inr page, log1) \<Rightarrow>
          (case fetchPageBlocks E net pageId log1 of
             (Inl e, log2) \<Rightarrow> (Inl e, log2)
           | (Inr blocks, log2) \<Rightarrow>
               (andThen (extractPageTitle page) (\<lambda>t.
                andThen (get page (js ''properties'')) (\<lambda>props.
                andThen (extractSimpleProperties (orElse props (JObj []))) (\<lambda>ps.
                andThen (pageContent blocks) (\<lambda>contentText.
                  Inr \<lparr> target_type = js ''page'', target_id = pageId, title = t,
                        properties = ps, content_text = truncateContent contentText,
                        blocks_count = length blocks, items = None \<rparr>)))),
                log2)))"

text \<open>The callback of \<open>results.map\<close> in \<open>normalizeDatabaseTarget\<close>.\<close>

definition normalizeItem :: "jsval \<Rightarrow> error + NormalizedDatabaseItem" where
  "normalizeItem item =
     andThen (get item (js ''properties'')) (\<lambda>p.
       (let props = orElse p (JObj []) in
        andThen (extractPageTitle item) (\<lambda>t.
        andThen (extractSimpleProperties props) (\<lambda>ps.
          Inr \<lparr> item_id = getOpt item (js ''id''), item_title = t,
                item_properties = ps, item_properties_raw = props \<rparr>))))"

text \<open>One row of the summary text: \<^verbatim>\<open>`${i + 1}. ${item.title}\n${propLines}`\<close>, where
  a value \<open>JSON.stringify\<close> cannot serialize renders as \<open>undefined\<close>.\<close>

definition itemText :: "nat \<Rightarrow> NormalizedDatabaseItem \<Rightarrow> jstring" where
  "itemText i item =
     (let propLines =
            join [10]
              (map (\<lambda>kv. js ''  '' @ fst kv @ js '': '' @
                         (case stringify (snd kv) of None \<Rightarrow> js ''undefined'' | Some t \<Rightarrow> t))
                   (item_properties item))
      in digits (i + 1) @ js ''. '' @ item_title item @ [10] @ propLines)"

definition databaseContent :: "NormalizedDatabaseItem list \<Rightarrow> jstring" where
  "databaseContent its = join [10, 10] (map (\<lambda>p. itemText (fst p) (snd p)) (zip [0..<length its] its))"

definition normalizeDatabaseTarget ::
  "env \<Rightarrow> upstream \<Rightarrow> jsval \<Rightarrow> request list \<Rightarrow> (error + NormalizedTarget) \<times> request list" where
  "normalizeDatabaseTarget E net target log =
     (case queryDatabase E net (toString (getOpt target (js ''id'')))
             (orElse (getOpt target (js ''query'')) (JObj [])) log of
        (Inl e, log1) \<Rightarrow> (Inl e, log1)
      | (Inr response, log1) \<Rightarrow>
          (andThen (get response (js ''results'')) (\<lambda>results.
           andThen (mapOrEmpty normalizeItem results) (\<lambda>its.
             Inr \<lparr> target_type = js ''database'',
                   target_id = toString (getOpt target (js ''id'')),
                   title = js ''Database ('' @ digits (length its) @ js '' items)'',
                   properties = [],
                   content_text = truncateContent (databaseContent its),
                   blocks_count = 0,
                   items = Some its \<rparr>)),
           log1))"


section \<open>Request validation (validate.ts)\<close>

record AnalyzeRequest =
  targets :: "jsval list"
  mode :: jsval
  instructions :: jsval
  focus :: jsval

datatype validation = Valid AnalyzeRequest | Invalid jstring

definition WRITE_KEYWORDS :: "jstring list" where
  "WRITE_KEYWORDS =
     [js ''commit'', js ''create'', js ''update'', js ''delete'',
      js ''append'', js ''write'', js ''remove'', js ''insert'']"

text \<open>\<open>typeof v === "object"\<close> and \<open>typeof v === "string"\<close>.\<close>

fun isObjectType :: "jsval \<Rightarrow> bool" where
  "isObjectType JNull = True"
| "isObjectType (JArr xs) = True"
| "isObjectType (JObj kvs) = True"
| "isObjectType v = False"

fun isStringType :: "jsval \<Rightarrow> bool" where
  "isStringType (JStr s) = True"
| "isStringType v = False"

text \<open>The keyword in double quotes: \<^verbatim>\<open>`"${keyword}"`\<close>.\<close>

definition quoted :: "jstring \<Rightarrow> jstring" where
  "quoted keyword = [34] @ keyword @ [34]"

text \<open>The loop over \<open>WRITE_KEYWORDS\<close>: the first keyword, in the list's order, that
  the serialized body holds in quotes.\<close>

fun firstKeyword :: "jstring \<Rightarrow> jstring list \<Rightarrow> jstring option" where
  "firstKeyword bodyStr [] = None"
| "firstKeyword bodyStr (keyword # rest) =
     (if str_includes bodyStr (quoted keyword) then Some keyword
      else firstKeyword bodyStr rest)"

definition writeRejected :: "jstring \<Rightarrow> jstring" where
  "writeRejected keyword =
     js ''Write operation rejected: request contains forbidden keyword '' @ quoted keyword @
     js ''. This API is read-only.''"

text \<open>The loop over \<open>b.targets\<close>, from index \<open>i\<close>: the message of the first target
  that fails a check.\<close>

fun checkTargets :: "nat \<Rightarrow> jsval list \<Rightarrow> jstring option" where
  "checkTargets i [] = None"
| "checkTargets i (t # ts) =
     (if \<not> truthy t \<or> \<not> isObjectType t
        then Some (js ''targets['' @ digits i @ js ''] must be an object'')
      else if getOpt t (js ''type'') \<noteq> JStr (js ''page'') \<and>
              getOpt t (js ''type'') \<noteq> JStr (js ''database'')
        then Some (js ''targets['' @ digits i @ js ''].type must be '' @ quoted (js ''page'') @
                   js '' or '' @ quoted (js ''database''))
      else if \<not> truthy (getOpt t (js ''id'')) \<or> \<not> isStringType (getOpt t (js ''id''))
        then Some (js ''targets['' @ digits i @ js ''].id must be a non-empty string'')
      else checkTargets (i + 1) ts)"

definition validateRequest :: "jsval \<Rightarrow> validation" where
  "validateRequest body =
     (if \<not> truthy body \<or> \<not> isObjectType body
        then Invalid (js ''Request body must be a JSON object'')
      else
        (let bodyStr = toLowerCase (case stringify body of None \<Rightarrow> [] | Some t \<Rightarrow> t) in
         case firstKeyword bodyStr WRITE_KEYWORDS of
           Some keyword \<Rightarrow> Invalid (writeRejected keyword)
         | None \<Rightarrow>
             (case getOpt body (js ''targets'') of
                JArr ts \<Rightarrow>
                  if ts = [] then Invalid (quoted (js ''targets'') @ js '' must be a non-empty array'')
                  else
                    (case checkTargets 0 ts of
                       Some message \<Rightarrow> Invalid message
                     | None \<Rightarrow>
                         if getOpt body (js ''mode'') \<noteq> JUndefined \<and>
                            getOpt body (js ''mode'') \<noteq> JStr (js ''project'') \<and>
                            getOpt body (js ''mode'') \<noteq> JStr (js ''generic'')
                           then Invalid (quoted (js ''mode'') @ js '' must be '' @
                                         quoted (js ''project'') @ js '' or '' @
                                         quoted (js ''generic''))
                         else if getOpt body (js ''instructions'') \<noteq> JUndefined \<and>
                                 \<not> isStringType (getOpt body (js ''instructions''))
                           then Invalid (quoted (js ''instructions'') @ js '' must be a string'')
                         else if getOpt body (js ''focus'') \<noteq> JUndefined \<and>
                                 (case getOpt body (js ''focus'') of
                                    JArr fs \<Rightarrow> \<not> list_all isStringType fs
                                  | v \<Rightarrow> True)
                           then Invalid (quoted (js ''focus'') @ js '' must be an array of strings'')
                         else Valid \<lparr> targets = ts,
                                      mode = orElse (getOpt body (js ''mode'')) (JStr (js ''project'')),
                                      instructions = getOpt body (js ''instructions''),
                                      focus = getOpt body (js ''focus'') \<rparr>)
              | v \<Rightarrow> Invalid (quoted (js ''targets'') @ js '' must be a non-empty array''))))"


section \<open>Authentication (auth.ts)\<close>

text \<open>The inbound HTTP request, as far as \<open>handler\<close> reads it: the method, the value
  of the \<open>authorization\<close> header (\<open>undefined\<close> when absent) and the parsed body.\<close>

record VercelRequest =
  vr_method :: jstring
  vr_authorization :: jsval
  vr_body :: jsval

datatype auth = AuthOk | AuthFailed nat jstring

text \<open>The code units \<open>\s\<close> matches, and the line terminators \<open>.\<close> does not match.\<close>

definition isSpace :: "nat \<Rightarrow> bool" where
  "isSpace c = (c \<in> {9, 10, 11, 12, 13, 32, 160, 5760, 8232, 8233, 8239, 8287, 12288, 65279}
                \<or> (8192 \<le> c \<and> c \<le> 8202))"

definition isLineTerminator :: "nat \<Rightarrow> bool" where
  "isLineTerminator c = (c \<in> {10, 13, 8232, 8233})"

text \<open>
  The first group of \<^verbatim>\<open>/^Bearer\s+(.+)$/i\<close> on the header, \<open>None\<close> when it does not
  match.  \<open>\s+\<close> is greedy: it takes the whole run of white space after the word, and
  gives its last unit back to the group only when nothing follows the run.
\<close>

definition bearerToken :: "jstring \<Rightarrow> jstring option" where
  "bearerToken header =
     (if map upper_unit (take 6 header) \<noteq> js ''BEARER'' then None
      else
        (let spaces = takeWhile isSpace (drop 6 header);
             after = dropWhile isSpace (drop 6 header)
         in if spaces = [] then None
            else if after \<noteq> []
              then (if list_ex isLineTerminator after then None else Some after)
            else if length spaces \<ge> 2 \<and> \<not> isLineTerminator (last spaces)
              then Some [last spaces]
            else None))"

definition authenticate :: "env \<Rightarrow> VercelRequest \<Rightarrow> auth" where
  "authenticate E req =
     (case GATEWAY_API_KEY E of
        None \<Rightarrow> AuthFailed 500 (js ''Server misconfiguration: GATEWAY_API_KEY not set'')
      | Some key \<Rightarrow>
          if key = [] then AuthFailed 500 (js ''Server misconfiguration: GATEWAY_API_KEY not set'')
          else
            (case vr_authorization req of
               JStr authHeader \<Rightarrow>
                 if authHeader = [] then AuthFailed 401 (js ''Missing Authorization header'')
                 else
                   (case bearerToken authHeader of
                      None \<Rightarrow>
                        AuthFailed 401
                          (js ''Invalid Authorization header format. Expected: Bearer <token>'')
                    | Some token \<Rightarrow>
                        if token \<noteq> key then AuthFailed 401 (js ''Invalid API key'') else AuthOk)
             | v \<Rightarrow> AuthFailed 401 (js ''Missing Authorization header'')))"


section \<open>The analyze endpoint (analyze.ts)\<close>

text \<open>
  What \<open>handler\<close> sends: \<open>res.status(n).end()\<close>, \<open>res.status(n).json({ ok: false,
  error })\<close>, or the 200 answer \<open>{ ok: true, summary, analysis, notion_snapshot: {
  targets } }\<close>.  The \<open>analysis\<close> field, which \<open>buildAnalysis\<close> derives from the
  normalized targets without reaching the network, is left out of the model.
\<close>

datatype reply =
    Ended nat
  | Failed nat jstring
  | Succeeded jstring "NormalizedTarget list"

text \<open>\<open>err.message\<close>.  The wording of the messages the engine itself gives (a
  rejected \<open>fetch\<close>, a body that is no JSON, a TypeError) is not modelled: the model
  puts the error's name.\<close>

fun errorMessage :: "error \<Rightarrow> jstring" where
  "errorMessage (Blocked method path) =
     js ''BLOCKED: Write operation attempted '' @ [8212] @ js '' '' @ method @ js '' '' @ path @
     js ''. This API is read-only.''"
| "errorMessage Misconfigured = js ''Server misconfiguration: NOTION_TOKEN not set''"
| "errorMessage (UpstreamError status txt) =
     js ''Notion API error '' @ digits status @ js '': '' @ txt"
| "errorMessage FetchFailed = js ''TypeError''"
| "errorMessage SyntaxError = js ''SyntaxError''"
| "errorMessage TypeError = js ''TypeError''"

text \<open>The loop of \<open>handler\<close> over \<open>request.targets\<close>, with the array
  \<open>normalizedTargets\<close> built so far.  A target's \<open>id\<close> is a string once the request
  is valid.\<close>

fun processTargets ::
  "env \<Rightarrow> upstream \<Rightarrow> jsval list \<Rightarrow> NormalizedTarget list \<Rightarrow> request list
     \<Rightarrow> (error + NormalizedTarget list) \<times> request list" where
  "processTargets E net [] normalizedTargets log = (Inr normalizedTargets, log)"
| "processTargets E net (target # rest) normalizedTargets log =
     (if getOpt target (js ''type'') = JStr (js ''page'')
        then (case normalizePageTarget E net (toString (getOpt target (js ''id''))) log of
                (Inl e, log') \<Rightarrow> (Inl e, log')
              | (Inr result, log') \<Rightarrow>
                  processTargets E net rest (normalizedTargets @ [result]) log')
      else if getOpt target (js ''type'') = JStr (js ''database'')
        then (case normalizeDatabaseTarget E net target log of
                (Inl e, log') \<Rightarrow> (Inl e, log')
              | (Inr result, log') \<Rightarrow>
                  processTargets E net rest (normalizedTargets @ [result]) log')
      else processTargets E net rest normalizedTargets log)"

definition buildSummary :: "NormalizedTarget list \<Rightarrow> jstring \<Rightarrow> jstring" where
  "buildSummary ts m =
     (let titles = join (js '', '') (map title ts);
          totalBlocks = sum_list (map blocks_count ts);
          totalItems = sum_list (map (\<lambda>t. case items t of None \<Rightarrow> 0 | Some its \<Rightarrow> length its) ts)
      in join (js '' | '')
           ([m @ js '' analysis of: '' @ titles] @
            (if totalBlocks > 0 then [digits totalBlocks @ js '' blocks''] else []) @
            (if totalItems > 0 then [digits totalItems @ js '' database items''] else [])))"

definition handler ::
  "env \<Rightarrow> upstream \<Rightarrow> VercelRequest \<Rightarrow> request list \<Rightarrow> reply \<times> request list" where
  "handler E net req log =
     (if vr_method req = js ''OPTIONS'' then (Ended 200, log)
      else if vr_method req \<noteq> js ''POST''
        then (Failed 405 (js ''Method not allowed. Use POST.''), log)
      else
        (case authenticate E req of
           AuthFailed status message \<Rightarrow> (Failed status message, log)
         | AuthOk \<Rightarrow>
             (case validateRequest (vr_body req) of
                Invalid message \<Rightarrow> (Failed 400 message, log)
              | Valid request \<Rightarrow>
                  (case processTargets E net (targets request) [] log of
                     (Inl e, log') \<Rightarrow> (Failed 500 (errorMessage e), log')
                   | (Inr normalizedTargets, log') \<Rightarrow>
                       (Succeeded
                          (buildSummary normalizedTargets
                             (toString (orElse (mode request) (JStr (js ''project'')))))
                          normalizedTargets,
                        log')))))"


section \<open>The budget and the pre-order walk, as the specification words them\<close>

text \<open>The two bounds of the traversal budget on a list of emitted nodes.\<close>

definition withinBudget :: "env \<Rightarrow> FlatBlock list \<Rightarrow> bool" where
  "withinBudget E blocks \<longleftrightarrow>
     int (length blocks) \<le> maxBlocks E \<and> (\<forall>b \<in> set blocks. int (fb_depth b) \<le> maxDepth E)"

text \<open>The node emitted for a listed block \<open>b\<close> at a depth.\<close>

definition emit :: "jsval \<Rightarrow> nat \<Rightarrow> FlatBlock" where
  "emit b depth = \<lparr> fb_id = getOpt b (js ''id''), fb_type = getOpt b (js ''type''),
                    fb_depth = depth, fb_data = b \<rparr>"

text \<open>
  The pre-order walk of the tree that the listing \<open>kids\<close> describes (\<open>kids p\<close> are the
  children of \<open>p\<close>, in response order), down to depth \<open>D\<close>: each child at the current
  depth, followed by the walk of its own children when it is marked as having children
  and the next depth is within \<open>D\<close>, before its next sibling.  This definition follows
  the specification, not the code.
\<close>

function preorder :: "(jsval \<Rightarrow> jsval list) \<Rightarrow> int \<Rightarrow> jsval \<Rightarrow> nat \<Rightarrow> FlatBlock list" where
  "preorder kids D parentId depth =
     (if int depth > D then []
      else concat (map (\<lambda>b. emit b depth #
                            (if truthy (getOpt b (js ''has_children'')) \<and> int depth + 1 \<le> D
                             then preorder kids D (getOpt b (js ''id'')) (depth + 1) else []))
                       (kids parentId)))"
  by pat_completeness auto
termination
  by (relation "measure (\<lambda>(kids, D, parentId, depth). nat (D + 1 - int depth))") auto

text \<open>One child's part of the walk.\<close>

definition visit :: "(jsval \<Rightarrow> jsval list) \<Rightarrow> int \<Rightarrow> nat \<Rightarrow> jsval \<Rightarrow> FlatBlock list" where
  "visit kids D depth b =
     emit b depth #
       (if truthy (getOpt b (js ''has_children'')) \<and> int depth + 1 \<le> D
        then preorder kids D (getOpt b (js ''id'')) (depth + 1) else [])"

text \<open>
  The store serves the tree \<open>kids\<close>: every listing call succeeds and its \<open>results\<close>
  are the children of the block asked for, and no listed block is \<open>null\<close>.
\<close>

definition serves :: "env \<Rightarrow> upstream \<Rightarrow> (jsval \<Rightarrow> jsval list) \<Rightarrow> bool" where
  "serves E net kids \<longleftrightarrow>
     (\<forall>parentId log. \<exists>resp log'.
        retrieveBlockChildren E net parentId log = (Inr resp, log') \<and>
        andThen (get resp (js ''results'')) iterate = Inr (kids parentId))
     \<and> (\<forall>parentId. \<forall>b \<in> set (kids parentId). \<not> nullish b)"


section \<open>Example environment and stores\<close>

text \<open>A configured environment with every limit at its default, and stores that
  answer with fixed JSON; the examples below run the code on them.\<close>

definition sampleEnv :: env where
  "sampleEnv = \<lparr> NOTION_TOKEN = Some (js ''secret''), NOTION_VERSION = None, MAX_DEPTH = None,
                  MAX_BLOCKS = None, DB_PAGE_LIMIT = None, GATEWAY_API_KEY = Some (js ''key'') \<rparr>"

definition okJson :: "jsval \<Rightarrow> response option" where
  "okJson v = Some \<lparr> res_status = 200, res_text = [], res_json = Some v \<rparr>"

definition emptyStore :: upstream where
  "emptyStore log req = okJson (JObj [(js ''results'', JArr [])])"


text \<open>
  A store holding a small tree: \<open>root\<close> has the children \<open>a\<close> and \<open>b\<close>, \<open>a\<close> has \<open>c\<close>,
  and \<open>c\<close> has \<open>d\<close>.  It reads the pathname of the request: it answers the listing
  \<open>/v1/blocks/{id}/children\<close> of these three blocks with their children and every
  other request with an empty listing, except a request without search parameters
  for the page \<open>missing\<close>, which it answers with a 404.  \<open>treeKids\<close> is what it lists
  for a parent id: the listing at the pathname the request for that id goes to.
  \<open>tightEnv\<close> allows two nodes and depth one.
\<close>

definition node :: "string \<Rightarrow> bool \<Rightarrow> jsval" where
  "node i h = JObj [(js ''id'', JStr (js i)), (js ''type'', JStr (js ''paragraph'')),
                    (js ''has_children'', JBool h),
                    (js ''paragraph'',
                       JObj [(js ''rich_text'', JArr [JObj [(js ''plain_text'', JStr (js i))]])])]"

definition listedAt :: "jstring \<Rightarrow> jsval list" where
  "listedAt p =
     (if p = js ''/v1/blocks/root/children'' then [node ''a'' True, node ''b'' False]
      else if p = js ''/v1/blocks/a/children'' then [node ''c'' True]
      else if p = js ''/v1/blocks/c/children'' then [node ''d'' False]
      else [])"

definition treeKids :: "jsval \<Rightarrow> jsval list" where
  "treeKids parentId =
     listedAt (fst (snd (resolveUrl (js ''/v1/blocks/'' @ toString parentId @ js ''/children''))))"

definition treeStore :: upstream where
  "treeStore log req =
     (if req_path req = js ''/v1/pages/missing'' \<and> req_params req = []
      then Some \<lparr> res_status = 404, res_text = js ''not found'', res_json = None \<rparr>
      else okJson (JObj [(js ''results'', JArr (listedAt (req_path req)))]))"

definition tightEnv :: env where
  "tightEnv = sampleEnv \<lparr> MAX_DEPTH := Some 1, MAX_BLOCKS := Some 2 \<rparr>"


section \<open>Typed properties\<close>

text \<open>
  The discriminants \<open>extractSimpleProperties\<close> has a case for, and the shape its casts
  assume of a property: the property is an object, the rich text of a \<open>title\<close> or
  \<open>rich_text\<close> property holds no \<open>null\<close> span, and the list of a \<open>multi_select\<close>,
  \<open>people\<close> or \<open>relation\<close> property is absent or an array without \<open>null\<close> entries.
\<close>

definition knownTypes :: "jstring list" where
  "knownTypes =
     [js ''title'', js ''rich_text'', js ''number'', js ''select'', js ''multi_select'',
      js ''status'', js ''date'', js ''checkbox'', js ''url'', js ''email'', js ''phone_number'',
      js ''people'', js ''relation'', js ''formula'', js ''rollup'', js ''created_time'',
      js ''last_edited_time'', js ''created_by'', js ''last_edited_by'']"

definition spansOk :: "jsval \<Rightarrow> bool" where
  "spansOk v = (case v of JArr xs \<Rightarrow> list_all (\<lambda>x. \<not> nullish x) xs | u \<Rightarrow> True)"

definition arrayOk :: "jsval \<Rightarrow> bool" where
  "arrayOk v = (case v of JArr xs \<Rightarrow> list_all (\<lambda>x. \<not> nullish x) xs
                | JUndefined \<Rightarrow> True | JNull \<Rightarrow> True | u \<Rightarrow> False)"

definition wellTyped :: "jsval \<Rightarrow> bool" where
  "wellTyped prop \<longleftrightarrow>
     \<not> nullish prop \<and>
     (getOpt prop (js ''type'') = JStr (js ''title'') \<longrightarrow> spansOk (getOpt prop (js ''title''))) \<and>
     (getOpt prop (js ''type'') = JStr (js ''rich_text'') \<longrightarrow> spansOk (getOpt prop (js ''rich_text''))) \<and>
     (getOpt prop (js ''type'') = JStr (js ''multi_select'') \<longrightarrow> arrayOk (getOpt prop (js ''multi_select''))) \<and>
     (getOpt prop (js ''type'') = JStr (js ''people'') \<longrightarrow> arrayOk (getOpt prop (js ''people''))) \<and>
     (getOpt prop (js ''type'') = JStr (js ''relation'') \<longrightarrow> arrayOk (getOpt prop (js ''relation'')))"


text \<open>
  Literals whose quoting and lower-casing change nothing: \<open>plain\<close> strings hold
  printable ASCII without the double quote and the backslash, \<open>lowered\<close> ones hold no
  upper-case ASCII letter.
\<close>

definition plain :: "string \<Rightarrow> bool" where
  "plain s = list_all (\<lambda>c. 32 \<le> (of_char c :: nat) \<and> (of_char c :: nat) < 127 \<and>
                            (of_char c :: nat) \<noteq> 34 \<and> (of_char c :: nat) \<noteq> 92) s"

definition lowered :: "string \<Rightarrow> bool" where
  "lowered s = list_all (\<lambda>c. \<not> (65 \<le> (of_char c :: nat) \<and> (of_char c :: nat) \<le> 90)) s"

text \<open>The requests the examples send, and what the example stores hold: a database
  of two rows, the page \<open>root\<close> as normalized, and the two rows as normalized.\<close>

definition listRequest :: "env \<Rightarrow> jstring \<Rightarrow> request" where
  "listRequest E i = fetchRequest E (js ''secret'') (js ''GET'') (js ''/v1/blocks/'' @ i @ js ''/children'')
       \<lparr> opt_method = None, opt_body = JUndefined, opt_params = Some [(js ''page_size'', JNum 100)] \<rparr>"

definition pageRequest :: "env \<Rightarrow> jstring \<Rightarrow> request" where
  "pageRequest E i = fetchRequest E (js ''secret'') (js ''GET'') (js ''/v1/pages/'' @ i) noOptions"

definition queryRequest :: "env \<Rightarrow> jstring \<Rightarrow> jsval \<Rightarrow> request" where
  "queryRequest E d body = fetchRequest E (js ''secret'') (js ''POST'')
       (js ''/v1/databases/'' @ d @ js ''/query'')
       \<lparr> opt_method = Some (js ''POST''), opt_body = body, opt_params = None \<rparr>"

definition rowsJson :: "jsval list" where
  "rowsJson =
     [JObj [(js ''id'', JStr (js ''r1'')),
            (js ''properties'', JObj
               [(js ''Name'', JObj [(js ''type'', JStr (js ''title'')),
                                    (js ''title'', JArr [JObj [(js ''plain_text'', JStr (js ''Fix''))]])]),
                (js ''Status'', JObj [(js ''type'', JStr (js ''select'')),
                                      (js ''select'', JObj [(js ''name'', JStr (js ''Done''))])])])],
      JObj [(js ''id'', JStr (js ''r2'')),
            (js ''properties'', JObj
               [(js ''Name'', JObj [(js ''type'', JStr (js ''title'')),
                                    (js ''title'', JArr [])]),
                (js ''Kind'', JObj [(js ''type'', JStr (js ''button''))])])]]"

definition rowStore :: upstream where
  "rowStore log req = okJson (JObj [(js ''results'', JArr rowsJson)])"

definition dbTarget :: jsval where
  "dbTarget = JObj [(js ''type'', JStr (js ''database'')), (js ''id'', JStr (js ''db''))]"

definition rootPage :: NormalizedTarget where
  "rootPage = \<lparr> target_type = js ''page'', target_id = js ''root'', title = js ''Untitled'',
                 properties = [],
                 content_text = js ''a'' @ [10] @ js ''  c'' @ [10] @ js ''    d'' @ [10] @ js ''b'',
                 blocks_count = 4, items = None \<rparr>"

definition rows :: "NormalizedDatabaseItem list" where
  "rows = [\<lparr> item_id = JStr (js ''r1''), item_title = js ''Fix'',
              item_properties = [(js ''Name'', JStr (js ''Fix'')), (js ''Status'', JStr (js ''Done''))],
              item_properties_raw = JObj
                 [(js ''Name'', JObj [(js ''type'', JStr (js ''title'')),
                                      (js ''title'', JArr [JObj [(js ''plain_text'', JStr (js ''Fix''))]])]),
                  (js ''Status'', JObj [(js ''type'', JStr (js ''select'')),
                                        (js ''select'', JObj [(js ''name'', JStr (js ''Done''))])])] \<rparr>,
            \<lparr> item_id = JStr (js ''r2''), item_title = js ''Untitled'',
              item_properties = [(js ''Name'', JStr []), (js ''Kind'', JStr (js ''[button]''))],
              item_properties_raw = JObj
                 [(js ''Name'', JObj [(js ''type'', JStr (js ''title'')),
                                      (js ''title'', JArr [])]),
                  (js ''Kind'', JObj [(js ''type'', JStr (js ''button''))])] \<rparr>]"

definition rowsText :: jstring where
  "rowsText = js ''1. Fix'' @ [10] @ js ''  Name: '' @ quoted (js ''Fix'') @ [10] @
       js ''  Status: '' @ quoted (js ''Done'') @ [10, 10] @
       js ''2. Untitled'' @ [10] @ js ''  Name: '' @ quoted (js []) @ [10] @
       js ''  Kind: '' @ quoted (js ''[button]'')"

definition twoRows :: NormalizedTarget where
  "twoRows = \<lparr> target_type = js ''database'', target_id = js ''db'',
                 title = js ''Database (2 items)'', properties = [],
                 content_text = rowsText, blocks_count = 0, items = Some rows \<rparr>"

text \<open>The rows a query response holds: its \<open>results\<close> when that is an array.\<close>

definition resultRows :: "jsval \<Rightarrow> jsval list" where
  "resultRows response = (case getOpt response (js ''results'') of JArr xs \<Rightarrow> xs | v \<Rightarrow> [])"

text \<open>Inbound requests for the examples: an authenticated POST with a body of
  page targets; and the page targets as normalized under \<open>tightEnv\<close>.\<close>

definition pageTarget :: "string \<Rightarrow> jsval" where
  "pageTarget i = JObj [(js ''type'', JStr (js ''page'')), (js ''id'', JStr (js i))]"

definition bodyOf :: "jsval list \<Rightarrow> jsval" where
  "bodyOf ts = JObj [(js ''targets'', JArr ts)]"

definition twoPages :: "jsval list" where
  "twoPages = [pageTarget ''root'', pageTarget ''a'']"

definition post :: "jsval \<Rightarrow> VercelRequest" where
  "post body = \<lparr> vr_method = js ''POST'', vr_authorization = JStr (js ''Bearer key''),
                  vr_body = body \<rparr>"

definition tightRoot :: NormalizedTarget where
  "tightRoot = \<lparr> target_type = js ''page'', target_id = js ''root'', title = js ''Untitled'',
                  properties = [], content_text = js ''a'' @ [10] @ js ''  c'',
                  blocks_count = 2, items = None \<rparr>"

definition tightA :: NormalizedTarget where
  "tightA = \<lparr> target_type = js ''page'', target_id = js ''a'', title = js ''Untitled'',
               properties = [], content_text = js ''c'' @ [10] @ js ''  d'',
               blocks_count = 2, items = None \<rparr>"

definition brokenPages :: "jsval list" where
  "brokenPages = [pageTarget ''root'', pageTarget ''missing'']"



definition bigQuery :: jsval where
  "bigQuery = JObj [(js ''page_size'', JNum 100)]"

definition queryTargets :: "jsval list" where
  "queryTargets = [JObj [(js ''type'', JStr (js ''database'')), (js ''id'', JStr (js ''db'')),
                         (js ''query'', bigQuery)]]"

definition protoProps :: jsval where
  "protoProps = JObj [(js ''__proto__'', JObj [(js ''type'', JStr (js ''button''))]),
                      (js ''Kind'', JObj [(js ''type'', JStr (js ''button''))])]"

text \<open>A database target whose id holds a \<open>..\<close> segment and a question mark, with a
  query that names a parent page; the body \<open>queryDatabase\<close> makes of that query under
  the default page limit; and the target as normalized from an empty answer.\<close>

definition dotQuery :: jsval where
  "dotQuery = JObj [(js ''parent'', JObj [(js ''page_id'', JStr (js ''root''))])]"

definition dotTargets :: "jsval list" where
  "dotTargets = [JObj [(js ''type'', JStr (js ''database'')), (js ''id'', JStr (js ''../pages?'')),
                       (js ''query'', dotQuery)]]"

definition dotBody :: jsval where
  "dotBody = JObj [(js ''page_size'', JNum 50),
                   (js ''parent'', JObj [(js ''page_id'', JStr (js ''root''))])]"

definition emptyDatabase :: NormalizedTarget where
  "emptyDatabase = \<lparr> target_type = js ''database'', target_id = js ''../pages?'',
                       title = js ''Database (0 items)'', properties = [],
                       content_text = [], blocks_count = 0, items = Some [] \<rparr>"


section \<open>Basic facts about strings\<close>

lemma js_Nil: "js [] = []" by (simp add: js_def)
lemma js_Cons: "js (c # cs) = of_char c # js cs" by (simp add: js_def)

lemma js_eq_iff: "js a = js b \<longleftrightarrow> a = b"
proof -
  have "inj (of_char :: char \<Rightarrow> nat)" by (rule injI) simp
  then show ?thesis by (simp add: js_def inj_map_eq_map)
qed

lemma js_append: "js a @ js b = js (a @ b)"
  by (simp add: js_def)

lemma js_append2: "js a @ js b @ c = js (a @ b) @ c"
  by (simp add: js_def)

lemma js_eq_Nil: "js a = [] \<longleftrightarrow> a = []" "[] = js a \<longleftrightarrow> a = []"
  by (auto simp add: js_def)

lemma length_js: "length (js a) = length a"
  by (simp add: js_def)

lemmas lit = js_eq_iff js_append js_append2 js_eq_Nil length_js

lemma upper_units_idem: "concat (map upper_units (upper_units c)) = upper_units c"
  by (cases "97 \<le> c \<and> c \<le> 122") (auto simp add: upper_units_def)

lemma of_char_small: "(of_char c :: nat) < 256"
  by (metis of_char_mod_256 mod_less_divisor zero_less_numeral)

lemma toUpperCase_append: "toUpperCase (s @ t) = toUpperCase s @ toUpperCase t"
  by (simp add: toUpperCase_def)

lemma toUpperCase_idem: "toUpperCase (toUpperCase s) = toUpperCase s"
proof (induction s)
  case Nil
  then show ?case by (simp add: toUpperCase_def)
next
  case (Cons c s)
  have "toUpperCase (toUpperCase (c # s)) = toUpperCase (upper_units c @ toUpperCase s)"
    by (simp add: toUpperCase_def)
  also have "\<dots> = toUpperCase (upper_units c) @ toUpperCase (toUpperCase s)"
    by (rule toUpperCase_append)
  also have "toUpperCase (upper_units c) = upper_units c"
    unfolding toUpperCase_def by (rule upper_units_idem)
  finally show ?case using Cons by (simp add: toUpperCase_def)
qed

lemma escapeUnits_plain: "plain s \<Longrightarrow> escapeUnits (js s) = js s"
proof (induction s rule: induct_list012)
  case 1
  then show ?case by (simp add: js_Nil)
next
  case (2 x)
  then show ?case
    by (simp add: plain_def js_Nil js_Cons isHigh_def isLow_def escapeUnit_def)
next
  case (3 x y zs)
  from "3.prems" have p: "plain (y # zs)" by (simp add: plain_def)
  from "3.IH"(2) [OF p] "3.prems" show ?case
    by (simp add: plain_def js_Cons isHigh_def isLow_def escapeUnit_def)
qed

lemma quote_plain: "plain s \<Longrightarrow> quote (js s) = js (CHR 0x22 # s @ [CHR 0x22])"
  unfolding quote_def by (simp only: escapeUnits_plain) (simp add: js_def)

lemma quoted_js: "quoted (js k) = js (CHR 0x22 # k @ [CHR 0x22])"
  by (simp add: quoted_def js_def)

lemma lower_units_char:
  "\<not> (65 \<le> (of_char c :: nat) \<and> (of_char c :: nat) \<le> 90) \<Longrightarrow> lower_units (of_char c) = [of_char c]"
proof -
  have "(of_char c :: nat) \<noteq> 304" "(of_char c :: nat) \<noteq> 8490"
    using of_char_small [of c] by arith+
  then show "\<not> (65 \<le> (of_char c :: nat) \<and> (of_char c :: nat) \<le> 90) \<Longrightarrow>
      lower_units (of_char c) = [of_char c]"
    by (simp add: lower_units_def)
qed

lemma toLowerCase_js: "lowered s \<Longrightarrow> toLowerCase (js s) = js s"
  by (induction s) (simp_all add: lowered_def toLowerCase_def lower_units_char js_def)

lemma prefix_js: "prefix (js t) (js s) \<longleftrightarrow> prefix t s"
proof (induction t arbitrary: s)
  case Nil
  then show ?case by (simp add: js_Nil)
next
  case (Cons c t)
  then show ?case by (cases s) (simp_all add: js_Nil js_Cons)
qed

lemma str_includes_js: "str_includes (js s) (js t) \<longleftrightarrow> sublist t s"
proof (induction s)
  case Nil
  then show ?case by (simp add: js_Nil js_eq_Nil)
next
  case (Cons c s)
  have "prefix (js t) (of_char c # js s) \<longleftrightarrow> prefix t (c # s)"
    using prefix_js [of t "c # s"] by (simp add: js_Cons)
  with Cons show ?case by (simp add: js_Cons sublist_Cons_right)
qed

lemma digits_lit: "digits 0 = js ''0''" "digits 1 = js ''1''" "digits (Suc 0) = js ''1''"
  "digits 2 = js ''2''" "digits (Suc (Suc 0)) = js ''2''"
  by (simp_all add: js_def)

declare digits.simps [simp del]

lemma quote_Nil: "quote [] = js [CHR 0x22, CHR 0x22]"
  by (simp add: quote_def js_def)

lemmas lit2 = lit quote_plain quote_Nil quoted_js toLowerCase_js str_includes_js digits_lit plain_def lowered_def
  sublist_Cons_right

lemma repeat_simps: "repeat s 0 = []" "repeat s (Suc 0) = s" "repeat s 2 = s @ s"
  by (simp_all add: repeat_def numeral_2_eq_2)

lemmas run2 = andThen_def orElse_def own_def joinValues_def spanText_def Let_def repeat_simps


section \<open>The gateway: what the guard tests and what is sent\<close>

lemma callMethod_upper: "toUpperCase (callMethod options) = callMethod options"
  by (simp add: callMethod_def toUpperCase_idem)

lemma isWriteCall_iff:
  "isWriteCall m path \<longleftrightarrow>
     toUpperCase m = js ''PATCH'' \<or> toUpperCase m = js ''DELETE'' \<or>
     (toUpperCase m = js ''POST'' \<and>
        (path = js ''/v1/pages'' \<or> path = js ''/v1/pages/'' \<or>
         path = js ''/v1/comments'' \<or> path = js ''/v1/comments/''))"
  by (auto simp add: isWriteCall_def WRITE_PATTERNS_def Let_def js_Nil js_Cons)

lemma notionFetch_blocked:
  "isWriteCall (callMethod options) path \<Longrightarrow>
     notionFetch E net path options log = (Inl (Blocked (callMethod options) path), log)"
  by (simp add: notionFetch_def Let_def)

lemma notionFetch_not_blocked:
  "\<not> isWriteCall (callMethod options) path \<Longrightarrow>
     fst (notionFetch E net path options log) \<noteq> Inl (Blocked m p)"
  by (simp add: notionFetch_def Let_def split: option.splits)

lemma notionFetch_sent:
  "\<not> isWriteCall (callMethod options) path \<Longrightarrow> NOTION_TOKEN E = Some token \<Longrightarrow> token \<noteq> [] \<Longrightarrow>
   \<not> fetchRefuses (fetchRequest E token (callMethod options) path options) \<Longrightarrow>
     snd (notionFetch E net path options log)
       = log @ [fetchRequest E token (callMethod options) path options]"
  by (simp add: notionFetch_def Let_def split: option.splits)

lemma notionFetch_unsent:
  "NOTION_TOKEN E = Some token \<Longrightarrow>
   fetchRefuses (fetchRequest E token (callMethod options) path options) \<Longrightarrow>
     snd (notionFetch E net path options log) = log"
  by (simp add: notionFetch_def Let_def)

lemma fetchRequest_method [simp]: "req_method (fetchRequest E token m path options) = m"
  by (simp add: fetchRequest_def)

lemma fetchRequest_url:
  "req_origin (fetchRequest E token m path options) = fst (resolveUrl path)"
  "req_path (fetchRequest E token m path options) = fst (snd (resolveUrl path))"
  "req_query (fetchRequest E token m path options) = snd (snd (resolveUrl path))"
  by (simp_all add: fetchRequest_def)

lemma fetchRequest_body:
  "req_body (fetchRequest E token m path options)
     = (if truthy (opt_body options) then stringify (opt_body options) else None)"
  by (simp add: fetchRequest_def)

lemma fetchRequest_params:
  "req_params (fetchRequest E token m path options)
     = (case opt_params options of None \<Rightarrow> []
        | Some ps \<Rightarrow> map (\<lambda>kv. (fst kv, toString (snd kv))) ps)"
  by (simp add: fetchRequest_def)

lemma fetch_accepts_GET:
  "\<not> truthy (opt_body options) \<Longrightarrow>
     \<not> fetchRefuses (fetchRequest E token (js ''GET'') path options)"
  by (simp add: fetchRefuses_def fetchRequest_body isTokenUnit_def isAlpha_def isDigit_def js_def)

lemma fetch_accepts_POST: "\<not> fetchRefuses (fetchRequest E token (js ''POST'') path options)"
  by (simp add: fetchRefuses_def isTokenUnit_def isAlpha_def isDigit_def js_def)

lemma callMethod_GET: "opt_method options = None \<Longrightarrow> callMethod options = js ''GET''"
  by (simp add: callMethod_def toUpperCase_def upper_units_def js_def)

lemma callMethod_POST: "opt_method options = Some (js ''POST'') \<Longrightarrow> callMethod options = js ''POST''"
  by (simp add: callMethod_def toUpperCase_def upper_units_def js_def)

lemma GET_permitted: "\<not> isWriteCall (js ''GET'') p"
  by (simp add: isWriteCall_iff toUpperCase_def upper_units_def js_def)

lemma query_permitted: "\<not> isWriteCall (js ''POST'') (js ''/v1/databases/'' @ d @ js ''/query'')"
  by (simp add: isWriteCall_iff toUpperCase_def upper_units_def js_def)

lemma notionFetch_ok:
  assumes "callMethod options = m" "\<not> isWriteCall m path" "NOTION_TOKEN E = Some token"
    and "token \<noteq> []" "net log (fetchRequest E token m path options) = okJson v"
    and "\<not> fetchRefuses (fetchRequest E token m path options)"
  shows "notionFetch E net path options log = (Inr v, log @ [fetchRequest E token m path options])"
  using assms by (simp add: notionFetch_def Let_def okJson_def res_ok_def)

lemma notionFetch_refused:
  assumes "callMethod options = m" "\<not> isWriteCall m path" "NOTION_TOKEN E = Some token"
    and "token \<noteq> []" "net log (fetchRequest E token m path options) = Some res" "\<not> res_ok res"
    and "\<not> fetchRefuses (fetchRequest E token m path options)"
  shows "notionFetch E net path options log =
           (Inl (UpstreamError (res_status res) (res_text res)),
            log @ [fetchRequest E token m path options])"
  using assms by (simp add: notionFetch_def Let_def)

text \<open>
  The guard by method and path shape.  PATCH and DELETE are write calls on every
  path; POST is one on \<open>/v1/pages\<close> and \<open>/v1/comments\<close>, with or without a trailing
  slash, and on no other path; no other method is a write call.
\<close>

lemma guard_shapes:
  "callMethod options = js ''PATCH'' \<or> callMethod options = js ''DELETE'' \<Longrightarrow>
     isWriteCall (callMethod options) path"
  "callMethod options = js ''POST'' \<Longrightarrow>
     isWriteCall (callMethod options) path \<longleftrightarrow>
       path = js ''/v1/pages'' \<or> path = js ''/v1/pages/'' \<or>
       path = js ''/v1/comments'' \<or> path = js ''/v1/comments/''"
  "callMethod options = js ''GET'' \<Longrightarrow> \<not> isWriteCall (callMethod options) path"
  unfolding isWriteCall_iff callMethod_upper
  by (auto simp add: js_Nil js_Cons)

text \<open>
  What \<open>new URL\<close> makes of the paths the examples use: a path of plain segments is
  kept; a \<open>..\<close> segment removes the segment before it, and a \<open>?\<close> ends the path.
\<close>

lemmas url_defs = resolveUrl_def cleaned_def statesScheme_def statesAuthority_def isSlash_def
  isAlpha_def isDigit_def beforeQuery_def queryOf_def pathname_def isSingleDot_def isDoubleDot_def
  lower_unit_def percentEncode_def inPathSet_def inQuerySet_def isHigh_def isLow_def utf8_def
  percentByte_def hexDigit_def Let_def

lemma resolve_listing:
  "resolveUrl (js ''/v1/blocks/root/children'') = (AtBase, js ''/v1/blocks/root/children'', None)"
  "resolveUrl (js ''/v1/blocks/a/children'') = (AtBase, js ''/v1/blocks/a/children'', None)"
  "resolveUrl (js ''/v1/blocks/c/children'') = (AtBase, js ''/v1/blocks/c/children'', None)"
  by (simp_all add: url_defs js_def)

lemma resolve_page:
  "resolveUrl (js ''/v1/pages/root'') = (AtBase, js ''/v1/pages/root'', None)"
  "resolveUrl (js ''/v1/pages/a'') = (AtBase, js ''/v1/pages/a'', None)"
  "resolveUrl (js ''/v1/pages/missing'') = (AtBase, js ''/v1/pages/missing'', None)"
  by (simp_all add: url_defs js_def)

lemma resolve_query:
  "resolveUrl (js ''/v1/databases/db/query'') = (AtBase, js ''/v1/databases/db/query'', None)"
  by (simp add: url_defs js_def)

lemma resolve_dots:
  "resolveUrl (js ''/v1/databases/../pages?/query'')
     = (AtBase, js ''/v1/pages'', Some (js ''/query''))"
  by (simp add: url_defs js_def)


section \<open>The example stores, run\<close>

declare recurse.simps [simp del]

declare preorder.simps [simp del]

lemma sampleEnv_token: "NOTION_TOKEN sampleEnv = Some (js ''secret'')" "js ''secret'' \<noteq> []"
  by (simp_all add: sampleEnv_def js_def)

lemma tightEnv_token: "NOTION_TOKEN tightEnv = Some (js ''secret'')"
  by (simp add: tightEnv_def sampleEnv_def)

lemma noOptions_fields:
  "opt_method noOptions = None" "opt_body noOptions = JUndefined" "opt_params noOptions = None"
  by (simp_all add: noOptions_def)

lemma treeStore_listing:
  "treeStore log (fetchRequest E token m (js ''/v1/blocks/'' @ toString parentId @ js ''/children'')
       \<lparr> opt_method = None, opt_body = JUndefined,
         opt_params = Some [(js ''page_size'', JNum 100)] \<rparr>)
     = okJson (JObj [(js ''results'', JArr (treeKids parentId))])"
  by (simp add: treeStore_def treeKids_def fetchRequest_url fetchRequest_params)

lemma treeKids_eval:
  "treeKids (JStr (js ''root'')) = [node ''a'' True, node ''b'' False]"
  "treeKids (JStr (js ''a'')) = [node ''c'' True]"
  "treeKids (JStr (js ''c'')) = [node ''d'' False]"
  by (simp_all add: treeKids_def resolve_listing listedAt_def lit)

lemma treeStore_page_found:
  "treeStore log (fetchRequest E token m (js ''/v1/pages/root'') options)
     = okJson (JObj [(js ''results'', JArr [])])"
  "treeStore log (fetchRequest E token m (js ''/v1/pages/a'') options)
     = okJson (JObj [(js ''results'', JArr [])])"
  by (simp_all add: treeStore_def fetchRequest_url resolve_page listedAt_def lit)

lemma treeStore_page_missing:
  "treeStore log (fetchRequest E token m (js ''/v1/pages/missing'') noOptions)
     = Some \<lparr> res_status = 404, res_text = js ''not found'', res_json = None \<rparr>"
  by (simp add: treeStore_def fetchRequest_url fetchRequest_params resolve_page noOptions_fields)

lemma retrieveBlockChildren_treeStore:
  assumes "NOTION_TOKEN E = Some (js ''secret'')"
  shows "retrieveBlockChildren E treeStore parentId log
     = (Inr (JObj [(js ''results'', JArr (treeKids parentId))]),
        log @ [listRequest E (toString parentId)])"
  unfolding retrieveBlockChildren_def listRequest_def
  by (rule notionFetch_ok [OF _ GET_permitted assms sampleEnv_token(2)])
     (simp_all add: callMethod_GET treeStore_listing fetch_accepts_GET)

lemma retrievePage_found:
  assumes "NOTION_TOKEN E = Some (js ''secret'')" "pid = js ''root'' \<or> pid = js ''a''"
  shows "retrievePage E treeStore pid log
     = (Inr (JObj [(js ''results'', JArr [])]), log @ [pageRequest E pid])"
proof -
  from assms(2) have store:
    "treeStore log (fetchRequest E (js ''secret'') (js ''GET'') (js ''/v1/pages/'' @ pid) noOptions)
       = okJson (JObj [(js ''results'', JArr [])])"
    by (auto simp add: treeStore_page_found lit)
  show ?thesis
    unfolding retrievePage_def pageRequest_def
    by (rule notionFetch_ok [OF _ GET_permitted assms(1) sampleEnv_token(2)])
       (simp_all add: callMethod_GET noOptions_fields fetch_accepts_GET store)
qed

lemma retrievePage_root:
  assumes "NOTION_TOKEN E = Some (js ''secret'')"
  shows "retrievePage E treeStore (js ''root'') log
     = (Inr (JObj [(js ''results'', JArr [])]), log @ [pageRequest E (js ''root'')])"
  by (rule retrievePage_found [OF assms]) simp

lemma retrievePage_missing:
  assumes "NOTION_TOKEN E = Some (js ''secret'')"
  shows "retrievePage E treeStore (js ''missing'') log
     = (Inl (UpstreamError 404 (js ''not found'')), log @ [pageRequest E (js ''missing'')])"
proof -
  have "retrievePage E treeStore (js ''missing'') log
     = (Inl (UpstreamError
               (res_status \<lparr> res_status = 404, res_text = js ''not found'', res_json = None \<rparr>)
               (res_text \<lparr> res_status = 404, res_text = js ''not found'', res_json = None \<rparr>)),
        log @ [pageRequest E (js ''missing'')])"
    unfolding retrievePage_def pageRequest_def
    by (rule notionFetch_refused [OF _ GET_permitted assms sampleEnv_token(2)])
       (simp_all add: callMethod_GET noOptions_fields treeStore_page_missing res_ok_def
          fetch_accepts_GET lit)
  then show ?thesis by simp
qed

lemma maxima: "maxDepth sampleEnv = 2" "maxBlocks sampleEnv = 400"
  "maxDepth tightEnv = 1" "maxBlocks tightEnv = 2"
  by (simp_all add: maxDepth_def maxBlocks_def sampleEnv_def tightEnv_def)

lemma fetch_sample:
  "fetchPageBlocks sampleEnv treeStore (js ''root'') log =
     (Inr [emit (node ''a'' True) 0, emit (node ''c'' True) (Suc 0), emit (node ''d'' False) 2,
           emit (node ''b'' False) 0],
      log @ [listRequest sampleEnv (js ''root''), listRequest sampleEnv (js ''a''),
             listRequest sampleEnv (js ''c'')])"
  by (simp add: fetchPageBlocks_def recurse.simps retrieveBlockChildren_treeStore sampleEnv_token
        maxima treeKids_eval node_def emit_def lit run2)

lemma fetch_tight:
  "fetchPageBlocks tightEnv treeStore (js ''root'') log =
     (Inr [emit (node ''a'' True) 0, emit (node ''c'' True) (Suc 0)],
      log @ [listRequest tightEnv (js ''root''), listRequest tightEnv (js ''a'')])"
  by (simp add: fetchPageBlocks_def recurse.simps retrieveBlockChildren_treeStore tightEnv_token
        maxima treeKids_eval node_def emit_def lit run2)

lemma queryDatabase_answered:
  assumes "NOTION_TOKEN E = Some (js ''secret'')"
    and "\<And>req. net log req = okJson v"
  shows "queryDatabase E net d q log
     = (Inr v, log @ [queryRequest E d (JObj (spread [(js ''page_size'', JNum (dbPageLimit E))] q))])"
  unfolding queryDatabase_def queryRequest_def
  by (rule notionFetch_ok [OF _ query_permitted assms(1) sampleEnv_token(2)])
     (simp_all add: callMethod_POST assms(2) fetch_accepts_POST)

lemma lines_sample:
  "pageContent [emit (node ''a'' True) 0, emit (node ''c'' True) (Suc 0), emit (node ''d'' False) 2,
                emit (node ''b'' False) 0]
     = Inr (js ''a'' @ [10] @ js ''  c'' @ [10] @ js ''    d'' @ [10] @ js ''b'')"
  by (simp add: pageContent_def blockToText_def emit_def node_def lit run2)

lemma truncateContent_under: "length a \<le> MAX_CONTENT_CHARS \<Longrightarrow> truncateContent a = a"
  by (simp add: truncateContent_def)

lemma normalize_root:
  "normalizePageTarget sampleEnv treeStore (js ''root'') log
     = (Inr rootPage,
        log @ [pageRequest sampleEnv (js ''root''), listRequest sampleEnv (js ''root''),
               listRequest sampleEnv (js ''a''), listRequest sampleEnv (js ''c'')])"
  by (simp add: normalizePageTarget_def retrievePage_root fetch_sample sampleEnv_token
        lines_sample truncateContent_under MAX_CONTENT_CHARS_def rootPage_def
        extractPageTitle_def extractSimpleProperties_def lit run2)

lemma normalize_rows: "traverse normalizeItem rowsJson = Inr rows"
  by (simp add: rowsJson_def normalizeItem_def extractPageTitle_def extractSimpleProperties_def
        propertyValue_def setProp_def rows_def lit run2)

lemma rows_text: "databaseContent rows = rowsText"
  by (simp add: databaseContent_def itemText_def rows_def rowsText_def lit2 run2 upt_rec)

lemma rows_short: "truncateContent rowsText = rowsText"
  by (rule truncateContent_under)
     (simp add: rowsText_def MAX_CONTENT_CHARS_def quoted_def length_js)

lemma rows_length: "length rows = 2"
  by (simp add: rows_def)

lemma normalize_db:
  "normalizeDatabaseTarget sampleEnv rowStore dbTarget log
     = (Inr twoRows,
        log @ [queryRequest sampleEnv (js ''db'')
                 (JObj [(js ''page_size'', JNum (dbPageLimit sampleEnv))])])"
  unfolding normalizeDatabaseTarget_def
  by (simp add: dbTarget_def queryDatabase_answered [OF sampleEnv_token(1)] rowStore_def
        normalize_rows rows_text rows_short rows_length twoRows_def spread_def lit2 run2)

lemma bearer_key: "bearerToken (js ''Bearer key'') = Some (js ''key'')"
  by (simp add: bearerToken_def upper_unit_def isSpace_def isLineTerminator_def js_def)

lemma authenticate_post: "GATEWAY_API_KEY E = Some (js ''key'') \<Longrightarrow> authenticate E (post body) = AuthOk"
  by (simp add: authenticate_def post_def bearer_key lit)

lemma post_fields: "vr_method (post body) = js ''POST''" "vr_body (post body) = body"
  by (simp_all add: post_def)

lemma sample_key: "GATEWAY_API_KEY sampleEnv = Some (js ''key'')" "GATEWAY_API_KEY tightEnv = Some (js ''key'')"
  by (simp_all add: sampleEnv_def tightEnv_def)

lemma stringify_pages:
  "stringify (bodyOf twoPages)
     = Some (js ''{'' @ quoted (js ''targets'') @ js '':[{'' @
             quoted (js ''type'') @ js '':'' @ quoted (js ''page'') @ js '','' @
             quoted (js ''id'') @ js '':'' @ quoted (js ''root'') @ js ''},{'' @
             quoted (js ''type'') @ js '':'' @ quoted (js ''page'') @ js '','' @
             quoted (js ''id'') @ js '':'' @ quoted (js ''a'') @ js ''}]}'')"
  by (simp add: bodyOf_def twoPages_def pageTarget_def lit2)

lemma no_keyword_pages:
  "firstKeyword (toLowerCase (js ''{'' @ quoted (js ''targets'') @ js '':[{'' @
             quoted (js ''type'') @ js '':'' @ quoted (js ''page'') @ js '','' @
             quoted (js ''id'') @ js '':'' @ quoted (js ''root'') @ js ''},{'' @
             quoted (js ''type'') @ js '':'' @ quoted (js ''page'') @ js '','' @
             quoted (js ''id'') @ js '':'' @ quoted (js ''a'') @ js ''}]}'')) WRITE_KEYWORDS = None"
  by (simp add: WRITE_KEYWORDS_def lit2)

lemma validate_pages:
  "validateRequest (bodyOf twoPages)
     = Valid \<lparr> targets = twoPages, mode = JStr (js ''project''),
               instructions = JUndefined, focus = JUndefined \<rparr>"
  unfolding validateRequest_def stringify_pages
  by (simp add: Let_def no_keyword_pages)
     (simp add: bodyOf_def twoPages_def pageTarget_def own_def orElse_def lit)

lemma fetch_tight_a:
  "fetchPageBlocks tightEnv treeStore (js ''a'') log =
     (Inr [emit (node ''c'' True) 0, emit (node ''d'' False) (Suc 0)],
      log @ [listRequest tightEnv (js ''a''), listRequest tightEnv (js ''c'')])"
  by (simp add: fetchPageBlocks_def recurse.simps retrieveBlockChildren_treeStore tightEnv_token
        maxima treeKids_eval node_def emit_def lit run2)

lemma lines_tight:
  "pageContent [emit (node ''a'' True) 0, emit (node ''c'' True) (Suc 0)]
     = Inr (js ''a'' @ [10] @ js ''  c'')"
  "pageContent [emit (node ''c'' True) 0, emit (node ''d'' False) (Suc 0)]
     = Inr (js ''c'' @ [10] @ js ''  d'')"
  by (simp_all add: pageContent_def blockToText_def emit_def node_def lit run2)

lemma normalize_tight:
  "normalizePageTarget tightEnv treeStore (js ''root'') log
     = (Inr tightRoot,
        log @ [pageRequest tightEnv (js ''root''), listRequest tightEnv (js ''root''),
               listRequest tightEnv (js ''a'')])"
  "normalizePageTarget tightEnv treeStore (js ''a'') log
     = (Inr tightA,
        log @ [pageRequest tightEnv (js ''a''), listRequest tightEnv (js ''a''),
               listRequest tightEnv (js ''c'')])"
  by (simp_all add: normalizePageTarget_def retrievePage_found fetch_tight fetch_tight_a
        tightEnv_token lines_tight truncateContent_under MAX_CONTENT_CHARS_def tightRoot_def
        tightA_def extractPageTitle_def extractSimpleProperties_def lit run2)

lemma process_tight:
  "processTargets tightEnv treeStore twoPages [] []
     = (Inr [tightRoot, tightA],
        [pageRequest tightEnv (js ''root''), listRequest tightEnv (js ''root''),
         listRequest tightEnv (js ''a''), pageRequest tightEnv (js ''a''),
         listRequest tightEnv (js ''a''), listRequest tightEnv (js ''c'')])"
  by (simp add: twoPages_def pageTarget_def normalize_tight own_def lit)

lemma digits_4: "digits 4 = js ''4''"
  by (simp add: digits.simps js_def)

lemma summary_tight:
  "buildSummary [tightRoot, tightA] (js ''project'')
     = js ''project analysis of: Untitled, Untitled | 4 blocks''"
  by (simp add: buildSummary_def tightRoot_def tightA_def digits_4 lit)

lemma handler_tight:
  "handler tightEnv treeStore (post (bodyOf twoPages)) []
     = (Succeeded (js ''project analysis of: Untitled, Untitled | 4 blocks'') [tightRoot, tightA],
        [pageRequest tightEnv (js ''root''), listRequest tightEnv (js ''root''),
         listRequest tightEnv (js ''a''), pageRequest tightEnv (js ''a''),
         listRequest tightEnv (js ''a''), listRequest tightEnv (js ''c'')])"
  by (simp add: handler_def authenticate_post sample_key validate_pages process_tight summary_tight
        orElse_def post_fields lit)

lemma stringify_broken:
  "stringify (bodyOf brokenPages)
     = Some (js ''{'' @ quoted (js ''targets'') @ js '':[{'' @
             quoted (js ''type'') @ js '':'' @ quoted (js ''page'') @ js '','' @
             quoted (js ''id'') @ js '':'' @ quoted (js ''root'') @ js ''},{'' @
             quoted (js ''type'') @ js '':'' @ quoted (js ''page'') @ js '','' @
             quoted (js ''id'') @ js '':'' @ quoted (js ''missing'') @ js ''}]}'')"
  by (simp add: bodyOf_def brokenPages_def pageTarget_def lit2)

lemma no_keyword_broken:
  "firstKeyword (toLowerCase (js ''{'' @ quoted (js ''targets'') @ js '':[{'' @
             quoted (js ''type'') @ js '':'' @ quoted (js ''page'') @ js '','' @
             quoted (js ''id'') @ js '':'' @ quoted (js ''root'') @ js ''},{'' @
             quoted (js ''type'') @ js '':'' @ quoted (js ''page'') @ js '','' @
             quoted (js ''id'') @ js '':'' @ quoted (js ''missing'') @ js ''}]}'')) WRITE_KEYWORDS = None"
  by (simp add: WRITE_KEYWORDS_def lit2)

lemma validate_broken:
  "validateRequest (bodyOf brokenPages)
     = Valid \<lparr> targets = brokenPages, mode = JStr (js ''project''),
               instructions = JUndefined, focus = JUndefined \<rparr>"
  unfolding validateRequest_def stringify_broken
  by (simp add: Let_def no_keyword_broken)
     (simp add: bodyOf_def brokenPages_def pageTarget_def own_def orElse_def lit)

lemma process_root:
  "processTargets sampleEnv treeStore [pageTarget ''root''] [] []
     = (Inr [rootPage],
        [pageRequest sampleEnv (js ''root''), listRequest sampleEnv (js ''root''),
         listRequest sampleEnv (js ''a''), listRequest sampleEnv (js ''c'')])"
  by (simp add: pageTarget_def normalize_root own_def lit)

lemma normalize_missing:
  "normalizePageTarget sampleEnv treeStore (js ''missing'') log
     = (Inl (UpstreamError 404 (js ''not found'')), log @ [pageRequest sampleEnv (js ''missing'')])"
  by (simp add: normalizePageTarget_def retrievePage_missing sampleEnv_token)

lemma digits_404: "digits 404 = js ''404''"
  by (simp add: digits.simps js_def)


section \<open>A write path behind a permitted one\<close>

lemma spread_dotQuery:
  "JObj (spread [(js ''page_size'', JNum (dbPageLimit sampleEnv))] dotQuery) = dotBody"
  by (simp add: spread_def dotQuery_def dotBody_def dbPageLimit_def sampleEnv_def lit)

lemma dotQuery_not_nullish: "nullish dotQuery = False"
  by (simp add: dotQuery_def)

lemma digits_50: "digits 50 = js ''50''"
  by (simp add: digits.simps js_def)

lemma stringify_dots:
  "stringify (bodyOf dotTargets)
     = Some (js ''{'' @ quoted (js ''targets'') @ js '':[{'' @
             quoted (js ''type'') @ js '':'' @ quoted (js ''database'') @ js '','' @
             quoted (js ''id'') @ js '':'' @ quoted (js ''../pages?'') @ js '','' @
             quoted (js ''query'') @ js '':{'' @ quoted (js ''parent'') @ js '':{'' @
             quoted (js ''page_id'') @ js '':'' @ quoted (js ''root'') @ js ''}}}]}'')"
  by (simp add: bodyOf_def dotTargets_def dotQuery_def lit2)

lemma no_keyword_dots:
  "firstKeyword (toLowerCase (js ''{'' @ quoted (js ''targets'') @ js '':[{'' @
             quoted (js ''type'') @ js '':'' @ quoted (js ''database'') @ js '','' @
             quoted (js ''id'') @ js '':'' @ quoted (js ''../pages?'') @ js '','' @
             quoted (js ''query'') @ js '':{'' @ quoted (js ''parent'') @ js '':{'' @
             quoted (js ''page_id'') @ js '':'' @ quoted (js ''root'') @ js ''}}}]}''))
     WRITE_KEYWORDS = None"
  by (simp add: WRITE_KEYWORDS_def lit2)

lemma validate_dots:
  "validateRequest (bodyOf dotTargets)
     = Valid \<lparr> targets = dotTargets, mode = JStr (js ''project''),
               instructions = JUndefined, focus = JUndefined \<rparr>"
  unfolding validateRequest_def stringify_dots
  by (simp add: Let_def no_keyword_dots)
     (simp add: bodyOf_def dotTargets_def own_def orElse_def lit)

lemma normalize_dots:
  "normalizeDatabaseTarget sampleEnv emptyStore
       (JObj [(js ''type'', JStr (js ''database'')), (js ''id'', JStr (js ''../pages?'')),
              (js ''query'', dotQuery)]) log
     = (Inr emptyDatabase, log @ [queryRequest sampleEnv (js ''../pages?'') dotBody])"
  unfolding normalizeDatabaseTarget_def
  by (simp add: queryDatabase_answered [OF sampleEnv_token(1)] emptyStore_def spread_dotQuery
        emptyDatabase_def databaseContent_def truncateContent_under dotQuery_not_nullish
        lit2 run2)

lemma process_dots:
  "processTargets sampleEnv emptyStore dotTargets [] []
     = (Inr [emptyDatabase], [queryRequest sampleEnv (js ''../pages?'') dotBody])"
  by (simp add: dotTargets_def normalize_dots own_def lit)

lemma summary_dots:
  "buildSummary [emptyDatabase] (js ''project'') = js ''project analysis of: Database (0 items)''"
  by (simp add: buildSummary_def emptyDatabase_def lit)

lemma handler_dots:
  "handler sampleEnv emptyStore (post (bodyOf dotTargets)) []
     = (Succeeded (js ''project analysis of: Database (0 items)'') [emptyDatabase],
        [queryRequest sampleEnv (js ''../pages?'') dotBody])"
  by (simp add: handler_def authenticate_post sample_key validate_dots process_dots summary_dots
        orElse_def post_fields lit)

lemma stringify_dotBody:
  "stringify dotBody
     = Some (js ''{'' @ quoted (js ''page_size'') @ js '':50,'' @ quoted (js ''parent'') @
             js '':{'' @ quoted (js ''page_id'') @ js '':'' @ quoted (js ''root'') @ js ''}}'')"
  by (simp add: dotBody_def show_int_def digits_50 lit2)

text \<open>
  Claim C1 fails on the code.  The guard tests the path as the caller wrote it, and
  \<open>fetch\<close> receives the URL that \<open>new URL\<close> resolves that path to.  Of the path as
  written the claim's shapes hold (\<open>notionFetch_blocked\<close>, \<open>notionFetch_not_blocked\<close>
  and \<open>guard_shapes\<close> above), but the request can go to a path that the guard blocks.
  A valid request whose database target has the id \<open>../pages?\<close> makes \<open>queryDatabase\<close>
  call the gateway with POST and \<open>/v1/databases/../pages?/query\<close>; the guard permits
  that, and the one request that goes out is a POST to \<open>/v1/pages\<close> with the query
  \<open>/query\<close>, its body carrying the caller's query.  Written as such, a POST to
  \<open>/v1/pages\<close> is a write call.
\<close>

theorem write_guard_bypassed_by_dot_segment:
  "\<not> isWriteCall (js ''POST'') (js ''/v1/databases/../pages?/query'')
   \<and> handler sampleEnv emptyStore (post (bodyOf dotTargets)) []
        = (Succeeded (js ''project analysis of: Database (0 items)'') [emptyDatabase],
           [queryRequest sampleEnv (js ''../pages?'') dotBody])
   \<and> req_method (queryRequest sampleEnv (js ''../pages?'') dotBody) = js ''POST''
   \<and> req_origin (queryRequest sampleEnv (js ''../pages?'') dotBody) = AtBase
   \<and> req_path (queryRequest sampleEnv (js ''../pages?'') dotBody) = js ''/v1/pages''
   \<and> req_query (queryRequest sampleEnv (js ''../pages?'') dotBody) = Some (js ''/query'')
   \<and> req_body (queryRequest sampleEnv (js ''../pages?'') dotBody)
        = Some (js ''{'' @ quoted (js ''page_size'') @ js '':50,'' @ quoted (js ''parent'') @
                js '':{'' @ quoted (js ''page_id'') @ js '':'' @ quoted (js ''root'') @ js ''}}'')
   \<and> isWriteCall (js ''POST'') (js ''/v1/pages'')"
proof -
  have guard: "\<not> isWriteCall (js ''POST'') (js ''/v1/databases/../pages?/query'')"
    "isWriteCall (js ''POST'') (js ''/v1/pages'')"
    by (simp_all add: isWriteCall_iff toUpperCase_def upper_units_def js_def)
  have sent: "req_method (queryRequest sampleEnv (js ''../pages?'') dotBody) = js ''POST''"
    "req_origin (queryRequest sampleEnv (js ''../pages?'') dotBody) = AtBase"
    "req_path (queryRequest sampleEnv (js ''../pages?'') dotBody) = js ''/v1/pages''"
    "req_query (queryRequest sampleEnv (js ''../pages?'') dotBody) = Some (js ''/query'')"
    by (simp_all add: queryRequest_def fetchRequest_url resolve_dots lit)
  have body: "req_body (queryRequest sampleEnv (js ''../pages?'') dotBody)
        = Some (js ''{'' @ quoted (js ''page_size'') @ js '':50,'' @ quoted (js ''parent'') @
                js '':{'' @ quoted (js ''page_id'') @ js '':'' @ quoted (js ''root'') @ js ''}}'')"
    unfolding queryRequest_def fetchRequest_body stringify_dotBody [symmetric]
    by (simp add: dotBody_def)
  from guard handler_dots sent body show ?thesis by simp
qed


section \<open>The fetcher stays within the traversal budget\<close>

lemma recurse_loop_withinBudget:
  "withinBudget E result \<Longrightarrow> recurse E net parentId depth result log = (Inr r', log')
     \<Longrightarrow> withinBudget E r'"
  "withinBudget E result \<Longrightarrow> int depth \<le> maxDepth E
     \<Longrightarrow> loop E net blocks depth result log = (Inr r', log') \<Longrightarrow> withinBudget E r'"
proof (induction E net parentId depth result log and E net blocks depth result log
       arbitrary: r' log' and r' log' rule: recurse_loop.induct)
  case (1 E net parentId depth result log)
  show ?case
  proof (cases "int depth > maxDepth E \<or> int (length result) \<ge> maxBlocks E")
    case True
    with "1.prems" show ?thesis by (simp add: recurse.simps)
  next
    case False
    with "1.prems"(2) obtain resp log1 blocks where
      r: "retrieveBlockChildren E net parentId log = (Inr resp, log1)"
      and b: "andThen (get resp (js ''results'')) iterate = Inr blocks"
      and l: "loop E net blocks depth result log1 = (Inr r', log')"
      by (auto simp add: recurse.simps split: prod.splits sum.splits)
    from False have d: "int depth \<le> maxDepth E" by simp
    from "1.IH" [OF False r [symmetric] refl b "1.prems"(1) d l] show ?thesis .
  qed
next
  case (2 E net depth result log)
  then show ?case by simp
next
  case (3 E net b rest depth result log)
  show ?case
  proof (cases "int (length result) \<ge> maxBlocks E")
    case True
    with "3.prems" show ?thesis by simp
  next
    case False
    with "3.prems"(3) obtain bid where bid: "get b (js ''id'') = Inr bid"
      by (auto split: sum.splits)
    define pushed where "pushed = result @ [\<lparr> fb_id = bid, fb_type = getOpt b (js ''type''),
                                      fb_depth = depth, fb_data = b \<rparr>]"
    from False "3.prems"(1,2) have wp: "withinBudget E pushed"
      by (auto simp add: withinBudget_def pushed_def)
    show ?thesis
    proof (cases "truthy (getOpt b (js ''has_children'')) \<and> int depth < maxDepth E")
      case True
      with False bid "3.prems"(3) obtain result1 log1 where
        rc: "recurse E net bid (depth + 1) pushed log = (Inr result1, log1)"
        and lp: "loop E net rest depth result1 log1 = (Inr r', log')"
        by (auto simp add: pushed_def Let_def split: prod.splits sum.splits)
      from "3.IH"(1) [OF False bid pushed_def True wp rc] have w1: "withinBudget E result1" .
      from "3.IH"(2) [OF False bid pushed_def True rc [symmetric] refl w1 "3.prems"(2) lp]
      show ?thesis .
    next
      case nochildren: False
      with False bid "3.prems"(3) have
        lp: "loop E net rest depth pushed log = (Inr r', log')"
        by (auto simp add: pushed_def Let_def split: prod.splits sum.splits)
      from "3.IH"(3) [OF False bid pushed_def nochildren wp "3.prems"(2) lp] show ?thesis .
    qed
  qed
qed


text \<open>
  Claim C2.  With a depth ceiling \<open>D \<ge> 0\<close> and a node budget \<open>N > 0\<close> configured, and
  whatever the store answers (also when its answers change from call to call), the
  nodes one call of \<open>fetchPageBlocks\<close> returns are at most \<open>N\<close>, and each has a depth
  of at most \<open>D\<close>.
\<close>

theorem fetchPageBlocks_bounded:
  "0 \<le> maxDepth E \<Longrightarrow> 0 < maxBlocks E \<Longrightarrow>
   fetchPageBlocks E net pageId log = (Inr blocks, log') \<Longrightarrow>
     int (length blocks) \<le> maxBlocks E \<and> (\<forall>b \<in> set blocks. int (fb_depth b) \<le> maxDepth E)"
proof -
  assume n: "0 < maxBlocks E" and f: "fetchPageBlocks E net pageId log = (Inr blocks, log')"
  have "withinBudget E []" using n by (simp add: withinBudget_def)
  from recurse_loop_withinBudget(1) [OF this f [unfolded fetchPageBlocks_def]]
  show ?thesis by (simp add: withinBudget_def)
qed

theorem fetchPageBlocks_bounded_witness:
  "0 \<le> maxDepth tightEnv \<and> 0 < maxBlocks tightEnv \<and>
   fetchPageBlocks tightEnv treeStore (js ''root'') []
     = (Inr [emit (node ''a'' True) 0, emit (node ''c'' True) (Suc 0)],
        [listRequest tightEnv (js ''root''), listRequest tightEnv (js ''a'')]) \<and>
   int (length [emit (node ''a'' True) 0, emit (node ''c'' True) (Suc 0)]) \<le> maxBlocks tightEnv \<and>
   list_all (\<lambda>b. int (fb_depth b) \<le> maxDepth tightEnv)
     [emit (node ''a'' True) 0, emit (node ''c'' True) (Suc 0)]"
proof -
  have d: "0 \<le> maxDepth tightEnv" and n: "0 < maxBlocks tightEnv"
    by (simp_all add: maxima)
  have f: "fetchPageBlocks tightEnv treeStore (js ''root'') []
     = (Inr [emit (node ''a'' True) 0, emit (node ''c'' True) (Suc 0)],
        [listRequest tightEnv (js ''root''), listRequest tightEnv (js ''a'')])"
    using fetch_tight [of "[]"] by simp
  from fetchPageBlocks_bounded [OF d n f] d n f show ?thesis
    by (simp add: list_all_iff)
qed


section \<open>The fetcher returns the pre-order walk\<close>

lemma preorder_visit:
  "preorder kids D parentId depth =
     (if int depth > D then [] else concat (map (visit kids D depth) (kids parentId)))"
  by (subst preorder.simps) (simp add: visit_def [abs_def])

lemma get_not_nullish: "\<not> nullish b \<Longrightarrow> get b k = Inr (getOpt b k)"
  by (cases b) simp_all

lemma recurse_loop_preorder:
  "serves E net kids \<Longrightarrow>
   int (length result) + int (length (preorder kids (maxDepth E) parentId depth)) < maxBlocks E \<Longrightarrow>
     fst (recurse E net parentId depth result log)
       = Inr (result @ preorder kids (maxDepth E) parentId depth)"
  "serves E net kids \<Longrightarrow> int depth \<le> maxDepth E \<Longrightarrow> \<forall>b \<in> set blocks. \<not> nullish b \<Longrightarrow>
   int (length result) + int (length (concat (map (visit kids (maxDepth E) depth) blocks)))
      < maxBlocks E \<Longrightarrow>
     fst (loop E net blocks depth result log)
       = Inr (result @ concat (map (visit kids (maxDepth E) depth) blocks))"
proof (induction E net parentId depth result log and E net blocks depth result log
       rule: recurse_loop.induct)
  case (1 E net parentId depth result log)
  show ?case
  proof (cases "int depth > maxDepth E")
    case True
    then show ?thesis by (simp add: recurse.simps preorder_visit)
  next
    case False
    from "1.prems"(2) have lt: "\<not> int (length result) \<ge> maxBlocks E" by simp
    with False have go: "\<not> (int depth > maxDepth E \<or> int (length result) \<ge> maxBlocks E)" by simp
    from "1.prems"(1) obtain resp log1 where
      r: "retrieveBlockChildren E net parentId log = (Inr resp, log1)"
      and b: "andThen (get resp (js ''results'')) iterate = Inr (kids parentId)"
      and nn: "\<forall>b \<in> set (kids parentId). \<not> nullish b"
      unfolding serves_def by blast
    from False have d: "int depth \<le> maxDepth E" by simp
    from "1.prems"(2) False
    have bound: "int (length result)
        + int (length (concat (map (visit kids (maxDepth E) depth) (kids parentId)))) < maxBlocks E"
      by (simp add: preorder_visit)
    from "1.IH" [OF go r [symmetric] refl b "1.prems"(1) d nn bound]
    have "fst (loop E net (kids parentId) depth result log1)
            = Inr (result @ concat (map (visit kids (maxDepth E) depth) (kids parentId)))" .
    with go r b False show ?thesis
      by (simp add: recurse.simps preorder_visit)
  qed
next
  case (2 E net depth result log)
  then show ?case by simp
next
  case (3 E net b rest depth result log)
  from "3.prems"(4) have lt: "\<not> int (length result) \<ge> maxBlocks E" by simp
  from "3.prems"(3) have bid: "get b (js ''id'') = Inr (getOpt b (js ''id''))"
    by (simp add: get_not_nullish)
  define pushed where "pushed = result @ [\<lparr> fb_id = getOpt b (js ''id''),
       fb_type = getOpt b (js ''type''), fb_depth = depth, fb_data = b \<rparr>]"
  have pushed_emit: "pushed = result @ [emit b depth]" by (simp add: pushed_def emit_def)
  from "3.prems"(3) have nn: "\<forall>b \<in> set rest. \<not> nullish b" by simp
  show ?case
  proof (cases "truthy (getOpt b (js ''has_children'')) \<and> int depth < maxDepth E")
    case True
    then have v: "visit kids (maxDepth E) depth b
        = emit b depth # preorder kids (maxDepth E) (getOpt b (js ''id'')) (depth + 1)"
      by (simp add: visit_def)
    from "3.prems"(4) v have b1: "int (length pushed)
        + int (length (preorder kids (maxDepth E) (getOpt b (js ''id'')) (depth + 1))) < maxBlocks E"
      by (simp add: pushed_emit)
    from "3.IH"(1) [OF lt bid pushed_def True "3.prems"(1) b1]
    obtain log1 where rc: "recurse E net (getOpt b (js ''id'')) (depth + 1) pushed log
        = (Inr (pushed @ preorder kids (maxDepth E) (getOpt b (js ''id'')) (depth + 1)), log1)"
      by (metis prod.collapse)
    from "3.prems"(4) v have b2:
      "int (length (pushed @ preorder kids (maxDepth E) (getOpt b (js ''id'')) (depth + 1)))
        + int (length (concat (map (visit kids (maxDepth E) depth) rest))) < maxBlocks E"
      by (simp add: pushed_emit)
    from "3.IH"(2) [OF lt bid pushed_def True rc [symmetric] refl "3.prems"(1,2) nn b2]
    have "fst (loop E net rest depth
                 (pushed @ preorder kids (maxDepth E) (getOpt b (js ''id'')) (depth + 1)) log1)
          = Inr ((pushed @ preorder kids (maxDepth E) (getOpt b (js ''id'')) (depth + 1))
                  @ concat (map (visit kids (maxDepth E) depth) rest))" .
    with lt bid True rc v show ?thesis
      by (simp add: pushed_def [symmetric] Let_def pushed_emit)
  next
    case False
    then have v: "visit kids (maxDepth E) depth b = [emit b depth]"
      by (auto simp add: visit_def)
    from "3.prems"(4) v have b2:
      "int (length pushed) + int (length (concat (map (visit kids (maxDepth E) depth) rest)))
         < maxBlocks E"
      by (simp add: pushed_emit)
    from "3.IH"(3) [OF lt bid pushed_def False "3.prems"(1,2) nn b2]
    have "fst (loop E net rest depth pushed log)
          = Inr (pushed @ concat (map (visit kids (maxDepth E) depth) rest))" .
    moreover from False
    have "(truthy (getOpt b (js ''has_children'')) \<and> int depth < maxDepth E) = False" by simp
    ultimately show ?thesis using lt bid v
      by (auto simp add: pushed_def [symmetric] Let_def pushed_emit)
  qed
qed

text \<open>
  Claim C3.  When the store serves a tree whose walk down to the depth ceiling has
  fewer nodes than the node budget, \<open>fetchPageBlocks\<close> returns exactly that walk:
  every descendant within the ceiling, once, a parent's children in response order
  and a child's whole subtree before its next sibling.
\<close>

theorem fetchPageBlocks_preorder:
  "serves E net kids \<Longrightarrow>
   int (length (preorder kids (maxDepth E) (JStr pageId) 0)) < maxBlocks E \<Longrightarrow>
     fst (fetchPageBlocks E net pageId log) = Inr (preorder kids (maxDepth E) (JStr pageId) 0)"
  using recurse_loop_preorder(1) [of E net kids "[]" "JStr pageId" 0 log]
  by (simp add: fetchPageBlocks_def)


lemma treeKids_not_nullish: "b \<in> set (treeKids i) \<Longrightarrow> \<not> nullish b"
  by (auto simp add: treeKids_def listedAt_def node_def split: if_splits)

lemma serves_treeStore: "serves sampleEnv treeStore treeKids"
  using retrieveBlockChildren_treeStore [OF sampleEnv_token(1)]
  by (auto simp add: serves_def andThen_def own_def dest: treeKids_not_nullish)

lemma walk_tree:
  "preorder treeKids (maxDepth sampleEnv) (JStr (js ''root'')) 0
     = [emit (node ''a'' True) 0, emit (node ''c'' True) (Suc 0), emit (node ''d'' False) 2,
        emit (node ''b'' False) 0]"
  by (simp add: preorder.simps maxima treeKids_eval node_def emit_def lit run2)

theorem fetchPageBlocks_preorder_witness:
  "serves sampleEnv treeStore treeKids
   \<and> int (length (preorder treeKids (maxDepth sampleEnv) (JStr (js ''root'')) 0)) < maxBlocks sampleEnv
   \<and> fst (fetchPageBlocks sampleEnv treeStore (js ''root'') [])
        = Inr (preorder treeKids (maxDepth sampleEnv) (JStr (js ''root'')) 0)
   \<and> preorder treeKids (maxDepth sampleEnv) (JStr (js ''root'')) 0
        = [emit (node ''a'' True) 0, emit (node ''c'' True) (Suc 0), emit (node ''d'' False) 2,
           emit (node ''b'' False) 0]"
proof -
  have small: "int (length (preorder treeKids (maxDepth sampleEnv) (JStr (js ''root'')) 0))
                 < maxBlocks sampleEnv"
    unfolding walk_tree by (simp add: maxima)
  from fetchPageBlocks_preorder [OF serves_treeStore small, of "[]"] serves_treeStore small walk_tree
  show ?thesis by simp
qed


section \<open>The content text is capped\<close>

lemma truncateContent_over:
  "length a > MAX_CONTENT_CHARS \<Longrightarrow>
     length (truncateContent a) = MAX_CONTENT_CHARS + length truncationMarker \<and>
     suffix truncationMarker (truncateContent a)"
  by (simp add: truncateContent_def suffix_def)

lemma normalizePageTarget_content:
  assumes "normalizePageTarget E net pageId log = (Inr nt, log')"
  shows "\<exists>blocks assembled.
           fst (fetchPageBlocks E net pageId (snd (retrievePage E net pageId log))) = Inr blocks \<and>
           pageContent blocks = Inr assembled \<and>
           content_text nt = truncateContent assembled \<and>
           blocks_count nt = length blocks"
  using assms
  by (auto simp add: normalizePageTarget_def andThen_def split: prod.splits sum.splits)

lemma normalizeDatabaseTarget_content:
  assumes "normalizeDatabaseTarget E net target log = (Inr dt, log')"
  shows "\<exists>its. items dt = Some its \<and> content_text dt = truncateContent (databaseContent its)"
  using assms
  by (auto simp add: normalizeDatabaseTarget_def andThen_def split: prod.splits sum.splits)

text \<open>
  Claim C7.  The cap is 20000 code units.  An assembled text longer than the cap
  becomes a text of the cap's length plus the marker's, ending with the marker; an
  assembled text within the cap is unchanged.  The \<open>content_text\<close> of a normalized page
  is that step applied to the joined non-empty lines of its blocks, and the
  \<open>content_text\<close> of a normalized database is that step applied to the joined row
  summaries.
\<close>

theorem content_text_capped:
  "MAX_CONTENT_CHARS = 20000
   \<and> (length a > MAX_CONTENT_CHARS \<longrightarrow>
        length (truncateContent a) = MAX_CONTENT_CHARS + length truncationMarker \<and>
        suffix truncationMarker (truncateContent a))
   \<and> (length a \<le> MAX_CONTENT_CHARS \<longrightarrow> truncateContent a = a)
   \<and> (normalizePageTarget E net pageId log = (Inr nt, log') \<longrightarrow>
        (\<exists>blocks assembled.
           fst (fetchPageBlocks E net pageId (snd (retrievePage E net pageId log))) = Inr blocks \<and>
           pageContent blocks = Inr assembled \<and>
           content_text nt = truncateContent assembled))
   \<and> (normalizeDatabaseTarget E net target log = (Inr dt, log'') \<longrightarrow>
        (\<exists>its. items dt = Some its \<and> content_text dt = truncateContent (databaseContent its)))"
  using truncateContent_over [of a] truncateContent_under [of a]
        normalizePageTarget_content [of E net pageId log nt log']
        normalizeDatabaseTarget_content [of E net target log dt log'']
  by (simp add: MAX_CONTENT_CHARS_def) blast

theorem content_text_capped_witness:
  "length (replicate 20001 (120::nat)) > MAX_CONTENT_CHARS
   \<and> length (truncateContent (replicate 20001 120)) = 20016
   \<and> suffix truncationMarker (truncateContent (replicate 20001 120))
   \<and> length (js ''short'') \<le> MAX_CONTENT_CHARS
   \<and> truncateContent (js ''short'') = js ''short''
   \<and> normalizePageTarget sampleEnv treeStore (js ''root'') []
        = (Inr rootPage,
           [pageRequest sampleEnv (js ''root''), listRequest sampleEnv (js ''root''),
            listRequest sampleEnv (js ''a''), listRequest sampleEnv (js ''c'')])
   \<and> (\<exists>blocks assembled.
          fst (fetchPageBlocks sampleEnv treeStore (js ''root'')
                 (snd (retrievePage sampleEnv treeStore (js ''root'') []))) = Inr blocks \<and>
          pageContent blocks = Inr assembled \<and>
          content_text rootPage = truncateContent assembled)
   \<and> normalizeDatabaseTarget sampleEnv rowStore dbTarget []
        = (Inr twoRows,
           [queryRequest sampleEnv (js ''db'')
              (JObj [(js ''page_size'', JNum (dbPageLimit sampleEnv))])])
   \<and> (\<exists>its. items twoRows = Some its \<and>
          content_text twoRows = truncateContent (databaseContent its))"
proof -
  note capped = content_text_capped
  have long: "length (replicate 20001 (120::nat)) > MAX_CONTENT_CHARS"
    and short: "length (js ''short'') \<le> MAX_CONTENT_CHARS"
    by (simp_all add: MAX_CONTENT_CHARS_def length_js)
  have marker: "length truncationMarker = 16"
    by (simp add: truncationMarker_def length_js)
  have page: "normalizePageTarget sampleEnv treeStore (js ''root'') []
        = (Inr rootPage,
           [pageRequest sampleEnv (js ''root''), listRequest sampleEnv (js ''root''),
            listRequest sampleEnv (js ''a''), listRequest sampleEnv (js ''c'')])"
    using normalize_root [of "[]"] by simp
  have db: "normalizeDatabaseTarget sampleEnv rowStore dbTarget []
        = (Inr twoRows,
           [queryRequest sampleEnv (js ''db'')
              (JObj [(js ''page_size'', JNum (dbPageLimit sampleEnv))])])"
    using normalize_db [of "[]"] by simp
  from capped [of "replicate 20001 120"] long marker
  have c1: "length (truncateContent (replicate 20001 120)) = 20016"
    and c2: "suffix truncationMarker (truncateContent (replicate 20001 120))"
    by simp_all
  from capped [of "js ''short''"] short
  have c3: "truncateContent (js ''short'') = js ''short''" by blast
  from capped [where E = sampleEnv and net = treeStore and pageId = "js ''root''" and log = "[]"
                   and nt = rootPage] page
  have c4: "\<exists>blocks assembled.
          fst (fetchPageBlocks sampleEnv treeStore (js ''root'')
                 (snd (retrievePage sampleEnv treeStore (js ''root'') []))) = Inr blocks \<and>
          pageContent blocks = Inr assembled \<and>
          content_text rootPage = truncateContent assembled"
    by blast
  from capped [where E = sampleEnv and net = rowStore and target = dbTarget and log = "[]"
                   and dt = twoRows] db
  have c5: "\<exists>its. items twoRows = Some its \<and>
          content_text twoRows = truncateContent (databaseContent its)"
    by blast
  from long short c1 c2 c3 page c4 db c5 show ?thesis by blast
qed


section \<open>What a normalized database target holds\<close>

lemma traverse_length: "traverse f xs = Inr ys \<Longrightarrow> length ys = length xs"
  by (induction xs arbitrary: ys) (auto split: sum.splits)

lemma mapOrEmpty_length:
  "mapOrEmpty f v = Inr ys \<Longrightarrow> length ys = length (case v of JArr xs \<Rightarrow> xs | u \<Rightarrow> [])"
  by (cases v) (auto dest: traverse_length)

lemma get_getOpt: "get v k = Inr u \<Longrightarrow> getOpt v k = u"
  by (cases v) auto

text \<open>
  Claim C10.  Whatever the query returns, a normalized database target has
  \<open>blocks_count\<close> 0 and no top-level properties; the number of rows of the response
  is the length of its \<open>items\<close> and the number in its title
  \<open>Database (N items)\<close>.
\<close>

theorem database_target_shape:
  "normalizeDatabaseTarget E net target log = (Inr dt, log') \<Longrightarrow>
     blocks_count dt = 0 \<and> properties dt = [] \<and>
     (\<exists>response its.
        fst (queryDatabase E net (toString (getOpt target (js ''id'')))
               (orElse (getOpt target (js ''query'')) (JObj [])) log) = Inr response \<and>
        items dt = Some its \<and>
        length its = length (resultRows response) \<and>
        title dt = js ''Database ('' @ digits (length its) @ js '' items)'')"
  by (auto simp add: normalizeDatabaseTarget_def andThen_def resultRows_def
       dest!: mapOrEmpty_length get_getOpt split: prod.splits sum.splits)

theorem database_target_shape_witness:
  "normalizeDatabaseTarget sampleEnv rowStore dbTarget []
     = (Inr twoRows,
        [queryRequest sampleEnv (js ''db'') (JObj [(js ''page_size'', JNum (dbPageLimit sampleEnv))])])
   \<and> blocks_count twoRows = 0 \<and> properties twoRows = []
   \<and> items twoRows = Some rows \<and> length rows = 2
   \<and> title twoRows = js ''Database (2 items)''
   \<and> (\<exists>response its.
        fst (queryDatabase sampleEnv rowStore (toString (getOpt dbTarget (js ''id'')))
               (orElse (getOpt dbTarget (js ''query'')) (JObj [])) []) = Inr response \<and>
        items twoRows = Some its \<and>
        length its = length (resultRows response) \<and>
        title twoRows = js ''Database ('' @ digits (length its) @ js '' items)'')"
proof -
  have db: "normalizeDatabaseTarget sampleEnv rowStore dbTarget []
     = (Inr twoRows,
        [queryRequest sampleEnv (js ''db'') (JObj [(js ''page_size'', JNum (dbPageLimit sampleEnv))])])"
    using normalize_db [of "[]"] by simp
  from database_target_shape [OF db] db rows_length show ?thesis
    by (simp add: twoRows_def)
qed


section \<open>One failing target fails the whole request\<close>

lemma processTargets_append:
  "processTargets E net (earlier @ later) acc log =
     (case processTargets E net earlier acc log of
        (Inl e, log1) \<Rightarrow> (Inl e, log1)
      | (Inr results, log1) \<Rightarrow> processTargets E net later results log1)"
  by (induction earlier arbitrary: acc log) (auto split: prod.splits sum.splits)

text \<open>
  Claim C6.  For a valid, authenticated POST: when the targets before some target have
  been normalized (with whatever results) and that target's normalization raises an
  error, \<open>handler\<close> answers with the single reply 500 carrying the error's message.
  That reply holds no normalized target, so the results of the earlier targets are not
  returned.
\<close>

theorem failing_target_fails_request:
  assumes "vr_method req = js ''POST''" and "authenticate E req = AuthOk"
    and "validateRequest (vr_body req) = Valid request"
    and "targets request = earlier @ target # later"
    and "processTargets E net earlier [] log = (Inr results, log1)"
    and "(getOpt target (js ''type'') = JStr (js ''page'') \<and>
            normalizePageTarget E net (toString (getOpt target (js ''id''))) log1 = (Inl e, log2))
         \<or> (getOpt target (js ''type'') = JStr (js ''database'') \<and>
            normalizeDatabaseTarget E net target log1 = (Inl e, log2))"
  shows "handler E net req log = (Failed 500 (errorMessage e), log2)"
proof -
  from assms(6) have "processTargets E net (target # later) results log1 = (Inl e, log2)"
    by (auto simp add: lit)
  with assms(5) have "processTargets E net (targets request) [] log = (Inl e, log2)"
    by (simp add: assms(4) processTargets_append)
  with assms(1,2,3) show ?thesis
    by (simp add: handler_def lit)
qed

theorem failing_target_fails_request_witness:
  "vr_method (post (bodyOf brokenPages)) = js ''POST''
   \<and> authenticate sampleEnv (post (bodyOf brokenPages)) = AuthOk
   \<and> validateRequest (vr_body (post (bodyOf brokenPages)))
        = Valid \<lparr> targets = brokenPages, mode = JStr (js ''project''),
                  instructions = JUndefined, focus = JUndefined \<rparr>
   \<and> brokenPages = [pageTarget ''root''] @ pageTarget ''missing'' # []
   \<and> processTargets sampleEnv treeStore [pageTarget ''root''] [] []
        = (Inr [rootPage],
           [pageRequest sampleEnv (js ''root''), listRequest sampleEnv (js ''root''),
            listRequest sampleEnv (js ''a''), listRequest sampleEnv (js ''c'')])
   \<and> normalizePageTarget sampleEnv treeStore (js ''missing'')
          [pageRequest sampleEnv (js ''root''), listRequest sampleEnv (js ''root''),
           listRequest sampleEnv (js ''a''), listRequest sampleEnv (js ''c'')]
        = (Inl (UpstreamError 404 (js ''not found'')),
           [pageRequest sampleEnv (js ''root''), listRequest sampleEnv (js ''root''),
            listRequest sampleEnv (js ''a''), listRequest sampleEnv (js ''c''),
            pageRequest sampleEnv (js ''missing'')])
   \<and> handler sampleEnv treeStore (post (bodyOf brokenPages)) []
        = (Failed 500 (js ''Notion API error 404: not found''),
           [pageRequest sampleEnv (js ''root''), listRequest sampleEnv (js ''root''),
            listRequest sampleEnv (js ''a''), listRequest sampleEnv (js ''c''),
            pageRequest sampleEnv (js ''missing'')])"
proof -
  have m: "vr_method (post (bodyOf brokenPages)) = js ''POST''"
    by (rule post_fields)
  have a: "authenticate sampleEnv (post (bodyOf brokenPages)) = AuthOk"
    by (rule authenticate_post [OF sample_key(1)])
  have v: "validateRequest (vr_body (post (bodyOf brokenPages)))
        = Valid \<lparr> targets = brokenPages, mode = JStr (js ''project''),
                  instructions = JUndefined, focus = JUndefined \<rparr>"
    by (simp add: post_fields validate_broken)
  have t: "targets \<lparr> targets = brokenPages, mode = JStr (js ''project''),
                     instructions = JUndefined, focus = JUndefined \<rparr>
             = [pageTarget ''root''] @ pageTarget ''missing'' # []"
    by (simp add: brokenPages_def)
  have n: "(getOpt (pageTarget ''missing'') (js ''type'') = JStr (js ''page'') \<and>
            normalizePageTarget sampleEnv treeStore (toString (getOpt (pageTarget ''missing'') (js ''id'')))
              [pageRequest sampleEnv (js ''root''), listRequest sampleEnv (js ''root''),
               listRequest sampleEnv (js ''a''), listRequest sampleEnv (js ''c'')]
            = (Inl (UpstreamError 404 (js ''not found'')),
               [pageRequest sampleEnv (js ''root''), listRequest sampleEnv (js ''root''),
                listRequest sampleEnv (js ''a''), listRequest sampleEnv (js ''c''),
                pageRequest sampleEnv (js ''missing'')]))
         \<or> (getOpt (pageTarget ''missing'') (js ''type'') = JStr (js ''database'') \<and>
            normalizeDatabaseTarget sampleEnv treeStore (pageTarget ''missing'')
              [pageRequest sampleEnv (js ''root''), listRequest sampleEnv (js ''root''),
               listRequest sampleEnv (js ''a''), listRequest sampleEnv (js ''c'')]
            = (Inl (UpstreamError 404 (js ''not found'')),
               [pageRequest sampleEnv (js ''root''), listRequest sampleEnv (js ''root''),
                listRequest sampleEnv (js ''a''), listRequest sampleEnv (js ''c''),
                pageRequest sampleEnv (js ''missing'')]))"
    by (simp add: pageTarget_def normalize_missing own_def lit)
  have h: "handler sampleEnv treeStore (post (bodyOf brokenPages)) []
        = (Failed 500 (errorMessage (UpstreamError 404 (js ''not found''))),
           [pageRequest sampleEnv (js ''root''), listRequest sampleEnv (js ''root''),
            listRequest sampleEnv (js ''a''), listRequest sampleEnv (js ''c''),
            pageRequest sampleEnv (js ''missing'')])"
    by (rule failing_target_fails_request [OF m a v t process_root n])
  have e: "errorMessage (UpstreamError 404 (js ''not found'')) = js ''Notion API error 404: not found''"
    by (simp add: digits_404 lit)
  from m a v process_root normalize_missing [of "[pageRequest sampleEnv (js ''root''),
         listRequest sampleEnv (js ''root''), listRequest sampleEnv (js ''a''),
         listRequest sampleEnv (js ''c'')]"] h [unfolded e]
  show ?thesis by (simp add: brokenPages_def)
qed


section \<open>The node budget is counted per page target\<close>

lemma normalizePageTarget_count:
  assumes "0 \<le> maxBlocks E" "normalizePageTarget E net pageId log = (Inr nt, log')"
  shows "int (blocks_count nt) \<le> maxBlocks E"
proof -
  from normalizePageTarget_content [OF assms(2)] obtain blocks where
    f: "fst (fetchPageBlocks E net pageId (snd (retrievePage E net pageId log))) = Inr blocks"
    and c: "blocks_count nt = length blocks" by blast
  from f obtain l where "recurse E net (JStr pageId) 0 [] (snd (retrievePage E net pageId log))
      = (Inr blocks, l)"
    unfolding fetchPageBlocks_def by (metis prod.collapse)
  from recurse_loop_withinBudget(1) [OF _ this] assms(1) c show ?thesis
    by (simp add: withinBudget_def)
qed

lemma normalizeDatabaseTarget_count:
  "normalizeDatabaseTarget E net target log = (Inr dt, log') \<Longrightarrow> blocks_count dt = 0"
  by (auto simp add: normalizeDatabaseTarget_def andThen_def split: prod.splits sum.splits)

lemma processTargets_counts:
  assumes "0 \<le> maxBlocks E"
  shows "processTargets E net ts acc log = (Inr nts, log') \<Longrightarrow>
         list_all (\<lambda>t. int (blocks_count t) \<le> maxBlocks E) acc \<Longrightarrow>
         list_all (\<lambda>t. int (blocks_count t) \<le> maxBlocks E) nts"
proof (induction ts arbitrary: acc log)
  case Nil
  then show ?case by simp
next
  case (Cons t ts)
  show ?case
  proof (cases "getOpt t (js ''type'') = JStr (js ''page'')")
    case True
    with Cons.prems(1) obtain r l where
      n: "normalizePageTarget E net (toString (getOpt t (js ''id''))) log = (Inr r, l)"
      and p: "processTargets E net ts (acc @ [r]) l = (Inr nts, log')"
      by (auto split: prod.splits sum.splits)
    from normalizePageTarget_count [OF assms n] Cons.prems(2)
    have "list_all (\<lambda>t. int (blocks_count t) \<le> maxBlocks E) (acc @ [r])" by simp
    from Cons.IH [OF p this] show ?thesis .
  next
    case notpage: False
    show ?thesis
    proof (cases "getOpt t (js ''type'') = JStr (js ''database'')")
      case True
      with notpage Cons.prems(1) obtain r l where
        n: "normalizeDatabaseTarget E net t log = (Inr r, l)"
        and p: "processTargets E net ts (acc @ [r]) l = (Inr nts, log')"
        by (auto split: prod.splits sum.splits)
      from normalizeDatabaseTarget_count [OF n] assms Cons.prems(2)
      have "list_all (\<lambda>t. int (blocks_count t) \<le> maxBlocks E) (acc @ [r])" by simp
      from Cons.IH [OF p this] show ?thesis .
    next
      case False
      with notpage Cons.prems(1) have "processTargets E net ts acc log = (Inr nts, log')" by simp
      from Cons.IH [OF this Cons.prems(2)] show ?thesis .
    qed
  qed
qed

lemma sum_bounded: "list_all (\<lambda>t. int (f t) \<le> n) xs \<Longrightarrow> int (sum_list (map f xs)) \<le> int (length xs) * n"
  by (induction xs) (auto simp add: algebra_simps)

lemma handler_succeeded:
  "handler E net req log = (Succeeded summary nts, log') \<Longrightarrow>
     \<exists>request. validateRequest (vr_body req) = Valid request \<and>
               processTargets E net (targets request) [] log = (Inr nts, log')"
  by (auto simp add: handler_def split: if_splits auth.splits validation.splits prod.splits sum.splits)

text \<open>
  Claim C8, as the code has it.  \<open>fetchPageBlocks\<close> starts its \<open>result\<close> array
  empty on every call, and \<open>handler\<close> calls it once per page target: the count is kept
  per target.  In a successful answer every target's \<open>blocks_count\<close> is at most the
  node budget, so the nodes of a request with \<open>k\<close> targets are at most \<open>k\<close> times the
  budget.  The example shows that they can exceed the budget itself: with a budget of
  two nodes, two page targets yield four.
\<close>

theorem node_budget_is_per_target:
  assumes "0 < maxBlocks E" and "handler E net req log = (Succeeded summary nts, log')"
  shows "list_all (\<lambda>t. int (blocks_count t) \<le> maxBlocks E) nts \<and>
         int (sum_list (map blocks_count nts)) \<le> int (length nts) * maxBlocks E"
proof -
  from handler_succeeded [OF assms(2)] obtain request :: AnalyzeRequest where
    "processTargets E net (targets request) [] log = (Inr nts, log')" by blast
  from processTargets_counts [OF _ this] assms(1)
  have "list_all (\<lambda>t. int (blocks_count t) \<le> maxBlocks E) nts" by simp
  with sum_bounded [OF this] show ?thesis by simp
qed

theorem node_budget_is_per_target_witness:
  "0 < maxBlocks tightEnv
   \<and> handler tightEnv treeStore (post (bodyOf twoPages)) []
        = (Succeeded (js ''project analysis of: Untitled, Untitled | 4 blocks'') [tightRoot, tightA],
           [pageRequest tightEnv (js ''root''), listRequest tightEnv (js ''root''),
            listRequest tightEnv (js ''a''), pageRequest tightEnv (js ''a''),
            listRequest tightEnv (js ''a''), listRequest tightEnv (js ''c'')])
   \<and> list_all (\<lambda>t. int (blocks_count t) \<le> maxBlocks tightEnv) [tightRoot, tightA]
   \<and> int (sum_list (map blocks_count [tightRoot, tightA]))
        \<le> int (length [tightRoot, tightA]) * maxBlocks tightEnv"
proof -
  have n: "0 < maxBlocks tightEnv" by (simp add: maxima)
  from node_budget_is_per_target [OF n handler_tight] n handler_tight show ?thesis by blast
qed

theorem node_budget_shared_counterexample:
  "maxBlocks tightEnv = 2
   \<and> handler tightEnv treeStore (post (bodyOf twoPages)) []
        = (Succeeded (js ''project analysis of: Untitled, Untitled | 4 blocks'') [tightRoot, tightA],
           [pageRequest tightEnv (js ''root''), listRequest tightEnv (js ''root''),
            listRequest tightEnv (js ''a''), pageRequest tightEnv (js ''a''),
            listRequest tightEnv (js ''a''), listRequest tightEnv (js ''c'')])
   \<and> blocks_count tightRoot = 2 \<and> blocks_count tightA = 2
   \<and> int (sum_list (map blocks_count [tightRoot, tightA])) > maxBlocks tightEnv"
  using handler_tight by (simp add: maxima tightRoot_def tightA_def)


section \<open>The keyword guard\<close>

















section \<open>The page size of a database query\<close>

lemma assign_own: "own (assign obj k v) k' = (if k' = k then v else own obj k')"
  by (induction obj) (auto simp add: own_def)

lemma fold_assign_own:
  "distinct (map fst kvs) \<Longrightarrow>
     own (fold (\<lambda>kv acc. assign acc (fst kv) (snd kv)) kvs obj) k
       = (case map_of kvs k of Some u \<Rightarrow> u | None \<Rightarrow> own obj k)"
proof (induction kvs arbitrary: obj)
  case Nil
  then show ?case by simp
next
  case (Cons kv kvs)
  from Cons.prems have d: "distinct (map fst kvs)" and n: "fst kv \<notin> fst ` set kvs" by simp_all
  from n have "map_of kvs (fst kv) = None" by (simp add: map_of_eq_None_iff)
  with Cons.IH [OF d, of "assign obj (fst kv) (snd kv)"] show ?case
    by (cases kv) (auto simp add: assign_own split: option.splits)
qed

lemma query_page_size:
  "distinct (map fst q) \<Longrightarrow>
     own (spread [(js ''page_size'', JNum limit)] (JObj q)) (js ''page_size'')
       = (case map_of q (js ''page_size'') of Some u \<Rightarrow> u | None \<Rightarrow> JNum limit)"
  by (simp add: spread_def fold_assign_own) (auto simp add: own_def split: option.splits)

lemma spread_bigQuery:
  "spread [(js ''page_size'', JNum limit)] bigQuery = [(js ''page_size'', JNum 100)]"
  by (simp add: spread_def bigQuery_def)

lemma bigQuery_not_nullish: "nullish bigQuery = False"
  by (simp add: bigQuery_def)

lemma digits_100: "digits 100 = js ''100''"
  by (simp add: digits.simps js_def)

lemma stringify_query:
  "stringify (bodyOf queryTargets)
     = Some (js ''{'' @ quoted (js ''targets'') @ js '':[{'' @
             quoted (js ''type'') @ js '':'' @ quoted (js ''database'') @ js '','' @
             quoted (js ''id'') @ js '':'' @ quoted (js ''db'') @ js '','' @
             quoted (js ''query'') @ js '':{'' @ quoted (js ''page_size'') @ js '':100}}]}'')"
  by (simp add: bodyOf_def queryTargets_def bigQuery_def show_int_def digits_100 lit2)

lemma no_keyword_query:
  "firstKeyword (toLowerCase (js ''{'' @ quoted (js ''targets'') @ js '':[{'' @
             quoted (js ''type'') @ js '':'' @ quoted (js ''database'') @ js '','' @
             quoted (js ''id'') @ js '':'' @ quoted (js ''db'') @ js '','' @
             quoted (js ''query'') @ js '':{'' @ quoted (js ''page_size'') @ js '':100}}]}''))
     WRITE_KEYWORDS = None"
  by (simp add: WRITE_KEYWORDS_def lit2)

lemma validate_query:
  "validateRequest (bodyOf queryTargets)
     = Valid \<lparr> targets = queryTargets, mode = JStr (js ''project''),
               instructions = JUndefined, focus = JUndefined \<rparr>"
  unfolding validateRequest_def stringify_query
  by (simp add: Let_def no_keyword_query)
     (simp add: bodyOf_def queryTargets_def own_def orElse_def lit)

lemma normalize_db_query:
  "normalizeDatabaseTarget sampleEnv rowStore
       (JObj [(js ''type'', JStr (js ''database'')), (js ''id'', JStr (js ''db'')),
              (js ''query'', bigQuery)]) log
     = (Inr twoRows,
        log @ [queryRequest sampleEnv (js ''db'') (JObj [(js ''page_size'', JNum 100)])])"
  unfolding normalizeDatabaseTarget_def
  by (simp add: queryDatabase_answered [OF sampleEnv_token(1)] rowStore_def spread_bigQuery
        normalize_rows rows_text rows_short rows_length twoRows_def bigQuery_not_nullish lit2 run2)

lemma process_query:
  "processTargets sampleEnv rowStore queryTargets [] []
     = (Inr [twoRows], [queryRequest sampleEnv (js ''db'') (JObj [(js ''page_size'', JNum 100)])])"
  by (simp add: queryTargets_def normalize_db_query own_def lit)

lemma summary_query:
  "buildSummary [twoRows] (js ''project'')
     = js ''project analysis of: Database (2 items) | 2 database items''"
  by (simp add: buildSummary_def twoRows_def rows_length digits_lit lit)

lemma handler_query:
  "handler sampleEnv rowStore (post (bodyOf queryTargets)) []
     = (Succeeded (js ''project analysis of: Database (2 items) | 2 database items'') [twoRows],
        [queryRequest sampleEnv (js ''db'') (JObj [(js ''page_size'', JNum 100)])])"
  by (simp add: handler_def authenticate_post sample_key validate_query process_query summary_query
        orElse_def post_fields lit)

text \<open>
  Claim C9 fails on the code.  \<open>queryDatabase\<close> spreads the caller's query over the
  literal \<open>{ page_size: dbPageLimit }\<close>, so a \<open>page_size\<close> in the query replaces the
  configured limit (\<open>query_page_size\<close> above).  With the default limit of 50, a valid
  request whose database target carries the query \<open>{ page_size: 100 }\<close> sends a
  request with page size 100 to the store.
\<close>

theorem page_size_cap_overridden:
  "dbPageLimit sampleEnv = 50
   \<and> handler sampleEnv rowStore (post (bodyOf queryTargets)) []
        = (Succeeded (js ''project analysis of: Database (2 items) | 2 database items'') [twoRows],
           [queryRequest sampleEnv (js ''db'') (JObj [(js ''page_size'', JNum 100)])])
   \<and> req_method (queryRequest sampleEnv (js ''db'') (JObj [(js ''page_size'', JNum 100)])) = js ''POST''
   \<and> req_path (queryRequest sampleEnv (js ''db'') (JObj [(js ''page_size'', JNum 100)]))
        = js ''/v1/databases/db/query''
   \<and> req_body (queryRequest sampleEnv (js ''db'') (JObj [(js ''page_size'', JNum 100)]))
        = Some (js ''{'' @ quoted (js ''page_size'') @ js '':100}'')"
  using handler_query
  by (simp add: dbPageLimit_def sampleEnv_def queryRequest_def fetchRequest_url fetchRequest_body
        resolve_query show_int_def digits_100 lit2)


section \<open>The property normalizer\<close>

lemma traverse_total:
  "(\<And>x. x \<in> set xs \<Longrightarrow> \<exists>y. f x = Inr y) \<Longrightarrow> \<exists>ys. traverse f xs = Inr ys"
proof (induction xs)
  case Nil
  then show ?case by simp
next
  case (Cons x xs)
  from Cons.prems [of x] obtain y where "f x = Inr y" by auto
  moreover from Cons.IH Cons.prems obtain ys where "traverse f xs = Inr ys" by auto
  ultimately show ?case by simp
qed

lemma richTextToPlain_total: "spansOk v \<Longrightarrow> \<exists>t. richTextToPlain v = Inr t"
proof (cases v)
  case (JArr xs)
  assume "spansOk v"
  with JArr have "\<And>x. x \<in> set xs \<Longrightarrow> \<exists>y. spanText x = Inr y"
    by (auto simp add: spansOk_def list_all_iff spanText_def andThen_def get_not_nullish)
  from traverse_total [of xs spanText, OF this] JArr show ?thesis
    by (auto simp add: andThen_def)
qed simp_all

lemma mapOrEmpty_total:
  assumes "arrayOk v" and "\<And>x. \<not> nullish x \<Longrightarrow> \<exists>y. f x = Inr y"
  shows "\<exists>ys. mapOrEmpty f v = Inr ys"
proof (cases v)
  case (JArr xs)
  with assms(1) have "\<And>x. x \<in> set xs \<Longrightarrow> \<exists>y. f x = Inr y"
    by (auto simp add: arrayOk_def list_all_iff intro: assms(2))
  from traverse_total [of xs f, OF this] JArr show ?thesis by simp
qed (use assms(1) in \<open>simp_all add: arrayOk_def\<close>)

lemma propertyValue_total:
  assumes "wellTyped prop"
  shows "\<exists>v. propertyValue (getOpt prop (js ''type'')) prop = Inr v"
proof -
  define t where "t = getOpt prop (js ''type'')"
  have g: "\<And>x k. \<not> nullish x \<Longrightarrow> \<exists>y. get x k = Inr y"
    by (simp add: get_not_nullish)
  have p: "\<And>x. \<not> nullish x \<Longrightarrow>
      \<exists>y. andThen (get x (js ''name'')) (\<lambda>n. Inr (orElse n (JStr (js ''Unknown'')))) = Inr y"
    by (simp add: get_not_nullish andThen_def)
  consider (title) "t = JStr (js ''title'')" | (rich) "t = JStr (js ''rich_text'')"
    | (multi) "t = JStr (js ''multi_select'')" | (people) "t = JStr (js ''people'')"
    | (relation) "t = JStr (js ''relation'')"
    | (other) "t \<noteq> JStr (js ''title'')" "t \<noteq> JStr (js ''rich_text'')"
        "t \<noteq> JStr (js ''multi_select'')" "t \<noteq> JStr (js ''people'')" "t \<noteq> JStr (js ''relation'')"
    by blast
  then have "\<exists>v. propertyValue t prop = Inr v"
  proof cases
    case title
    with assms have "spansOk (getOpt prop (js ''title''))" by (simp add: wellTyped_def t_def)
    from richTextToPlain_total [OF this] title show ?thesis
      by (auto simp add: propertyValue_def andThen_def)
  next
    case rich
    with assms have "spansOk (getOpt prop (js ''rich_text''))" by (simp add: wellTyped_def t_def)
    from richTextToPlain_total [OF this] rich show ?thesis
      by (auto simp add: propertyValue_def andThen_def lit)
  next
    case multi
    with assms have "arrayOk (getOpt prop (js ''multi_select''))" by (simp add: wellTyped_def t_def)
    from mapOrEmpty_total [where f = "\<lambda>s. get s (js ''name'')", OF this g] multi show ?thesis
      by (auto simp add: propertyValue_def andThen_def lit)
  next
    case people
    with assms have "arrayOk (getOpt prop (js ''people''))" by (simp add: wellTyped_def t_def)
    from mapOrEmpty_total
      [where f = "\<lambda>p. andThen (get p (js ''name'')) (\<lambda>n. Inr (orElse n (JStr (js ''Unknown''))))",
       OF this p] people show ?thesis
      by (auto simp add: propertyValue_def andThen_def lit)
  next
    case relation
    with assms have "arrayOk (getOpt prop (js ''relation''))" by (simp add: wellTyped_def t_def)
    from mapOrEmpty_total [where f = "\<lambda>r. get r (js ''id'')", OF this g] relation show ?thesis
      by (auto simp add: propertyValue_def andThen_def lit)
  next
    case other
    then show ?thesis by (simp add: propertyValue_def Let_def)
  qed
  then show ?thesis by (simp add: t_def)
qed

lemma propertyValue_unrecognized:
  "t \<notin> set knownTypes \<Longrightarrow> propertyValue (JStr t) prop = Inr (JStr (js ''['' @ t @ js '']''))"
  by (simp add: propertyValue_def knownTypes_def)

lemma assign_key_set: "fst ` set (assign obj k v) = insert k (fst ` set obj)"
proof (induction obj)
  case Nil
  then show ?case by simp
next
  case (Cons p obj)
  obtain a b where p: "p = (a, b)" by (cases p)
  show ?case
  proof (cases "a = k")
    case True
    with p show ?thesis by auto
  next
    case False
    with p Cons.IH show ?thesis by auto
  qed
qed

lemma extractLoop_total:
  "list_all wellTyped (map snd kvs) \<Longrightarrow>
     \<exists>r. extractLoop kvs acc = Inr r \<and>
         set (map fst r) = set (map fst acc) \<union> (set (map fst kvs) - {js ''__proto__''})"
proof (induction kvs arbitrary: acc)
  case Nil
  then show ?case by simp
next
  case (Cons kv kvs)
  obtain k v where kv: "kv = (k, v)" by (cases kv)
  from Cons.prems kv have w: "wellTyped v" and ws: "list_all wellTyped (map snd kvs)" by simp_all
  from w have g: "get v (js ''type'') = Inr (getOpt v (js ''type''))"
    by (simp add: wellTyped_def get_not_nullish)
  from propertyValue_total [OF w] obtain u where
    u: "propertyValue (getOpt v (js ''type'')) v = Inr u" by blast
  from Cons.IH [OF ws, of "setProp acc k u"] obtain r where
    r: "extractLoop kvs (setProp acc k u) = Inr r"
    and keys: "set (map fst r) = set (map fst (setProp acc k u)) \<union> (set (map fst kvs) - {js ''__proto__''})"
    by blast
  from r g u kv have "extractLoop (kv # kvs) acc = Inr r" by simp
  moreover from keys kv have
    "set (map fst r) = set (map fst acc) \<union> (set (map fst (kv # kvs)) - {js ''__proto__''})"
    by (auto simp add: setProp_def assign_key_set)
  ultimately show ?case by blast
qed

lemma extractSimpleProperties_total:
  "list_all wellTyped (map snd kvs) \<Longrightarrow>
     \<exists>r. extractSimpleProperties (JObj kvs) = Inr r \<and>
         set (map fst r) = set (map fst kvs) - {js ''__proto__''}"
  using extractLoop_total [of kvs "[]"] by (simp add: extractSimpleProperties_def andThen_def)

text \<open>
  Claim C4 fails on the code for one key.  On typed properties the normalizer never
  raises, stores the placeholder for an unrecognized discriminant, and keeps every key
  but \<open>__proto__\<close> (the three lemmas above).  A property named \<open>__proto__\<close> is among
  the entries of the input and missing from the result: the assignment
  \<open>result[key] = ...\<close> reaches the prototype accessor instead of creating a property.
\<close>

theorem proto_key_dropped:
  "extractSimpleProperties protoProps = Inr [(js ''Kind'', JStr (js ''[button]''))]
   \<and> entries protoProps
        = Inr [(js ''__proto__'', JObj [(js ''type'', JStr (js ''button''))]),
               (js ''Kind'', JObj [(js ''type'', JStr (js ''button''))])]"
  by (simp add: protoProps_def extractSimpleProperties_def propertyValue_def setProp_def lit run2)

end
